theory Spec2Isabelle
  imports Main "HOL-Library.Word"
begin

unbundle bit_operations_syntax

section \<open>Data model\<close>

text \<open>
  A shallow embedding of \<^verbatim>\<open>src/pyhulu/client.py\<close> (class \<^verbatim>\<open>HuluClient\<close>) and of the
  lines of \<^verbatim>\<open>src/hulu.py\<close> that configure the client.

  Python \<^verbatim>\<open>bytes\<close> are lists of 8-bit words.  A Python \<^verbatim>\<open>str\<close> is represented by the
  list of the bytes of its UTF-8 encoding (the \<open>string\<close> type of HOL), so that
  \<^verbatim>\<open>s.encode('utf8')\<close> only changes the type of the elements.
\<close>

type_synonym byte = "8 word"
type_synonym bytes = "byte list"

text \<open>
  Values that \<^verbatim>\<open>json.loads\<close> returns and that \<^verbatim>\<open>requests\<close> serialises.  A Python
  \<^verbatim>\<open>dict\<close> keeps insertion order, hence an association list.  A \<^verbatim>\<open>float\<close> is carried as
  its 64-bit pattern; nothing in the client computes with one.
\<close>

datatype json =
    JNull
  | JBool bool
  | JInt int
  | JFloat "64 word"
  | JStr string
  | JList "json list"
  | JDict "(string \<times> json) list"

text \<open>
  The exceptions that can leave the client.  \<open>ValueError\<close> carries its message, because the
  client raises two of them that differ in nothing else (lines 285 and 349).
  \<open>UnicodeDecodeError\<close> and \<open>JSONDecodeError\<close> are subclasses of \<^verbatim>\<open>ValueError\<close> in Python.
  \<open>HTTPError\<close> is what \<^verbatim>\<open>Response.raise_for_status\<close> raises; it holds the response (status and
  body).  \<open>ConnectionError\<close> stands for the exceptions of the transport itself.
\<close>

datatype error =
    ValueError string
  | TypeError
  | KeyError string
  | UnicodeDecodeError
  | JSONDecodeError
  | HTTPError int string
  | ConnectionError

fun isinstance_ValueError :: "error \<Rightarrow> bool" where
  "isinstance_ValueError (ValueError _) = True"
| "isinstance_ValueError UnicodeDecodeError = True"
| "isinstance_ValueError JSONDecodeError = True"
| "isinstance_ValueError _ = False"

section \<open>Library functions the client calls\<close>

subsection \<open>\<^verbatim>\<open>bytes.fromhex\<close> and \<^verbatim>\<open>binascii.hexlify\<close>\<close>

definition hexval :: "char \<Rightarrow> nat option" where
  "hexval c =
     (let n = of_char c :: nat in
      if 48 \<le> n \<and> n \<le> 57 then Some (n - 48)
      else if 97 \<le> n \<and> n \<le> 102 then Some (n - 87)
      else if 65 \<le> n \<and> n \<le> 70 then Some (n - 55)
      else None)"

text \<open>ASCII whitespace as \<^verbatim>\<open>bytes.fromhex\<close> skips it: space, and \<^verbatim>\<open>\t \n \v \f \r\<close>.\<close>

definition isspace :: "char \<Rightarrow> bool" where
  "isspace c = (let n = of_char c :: nat in n = 32 \<or> (9 \<le> n \<and> n \<le> 13))"

text \<open>
  \<^verbatim>\<open>bytes.fromhex(s)\<close> (CPython 3.7 and later): whitespace is skipped in front of a pair of
  hex digits and at the end, never inside a pair; anything else raises \<^verbatim>\<open>ValueError\<close>, here
  \<open>None\<close>.
\<close>

fun fromhex :: "string \<Rightarrow> bytes option" where
  "fromhex [] = Some []"
| "fromhex [c] = (if isspace c then Some [] else None)"
| "fromhex (c # d # cs) =
     (if isspace c then fromhex (d # cs)
      else (case (hexval c, hexval d) of
              (Some hi, Some lo) \<Rightarrow> map_option (\<lambda>bs. of_nat (hi * 16 + lo) # bs) (fromhex cs)
            | _ \<Rightarrow> None))"

definition hexdigit :: "nat \<Rightarrow> char" where
  "hexdigit n = ''0123456789abcdef'' ! (n mod 16)"

definition hexlify :: "bytes \<Rightarrow> string" where
  "hexlify bs = concat (map (\<lambda>b. [hexdigit (unat b div 16), hexdigit (unat b mod 16)]) bs)"

subsection \<open>\<^verbatim>\<open>str\<close> of an integer, \<^verbatim>\<open>str.upper\<close>, \<^verbatim>\<open>str.encode\<close>, \<^verbatim>\<open>bytes.decode\<close>, \<^verbatim>\<open>str.splitlines\<close>\<close>

definition digit10 :: "nat \<Rightarrow> char" where
  "digit10 n = ''0123456789'' ! (n mod 10)"

fun digits10 :: "nat \<Rightarrow> string" where
  "digits10 n = (if n < 10 then [digit10 n] else digits10 (n div 10) @ [digit10 n])"

declare digits10.simps [simp del]

definition str_int :: "int \<Rightarrow> string" where
  "str_int i = (if i < 0 then CHR ''-'' # digits10 (nat (- i)) else digits10 (nat i))"

text \<open>\<^verbatim>\<open>str.upper\<close> on ASCII text; the client applies it to a hex digest only.\<close>

definition upper_char :: "char \<Rightarrow> char" where
  "upper_char c = (let n = of_char c :: nat in if 97 \<le> n \<and> n \<le> 122 then char_of (n - 32) else c)"

definition upper :: "string \<Rightarrow> string" where
  "upper s = map upper_char s"

definition encode_utf8 :: "string \<Rightarrow> bytes" where
  "encode_utf8 s = map of_char s"

text \<open>Well-formed UTF-8: no overlong form, no surrogate, nothing above U+10FFFF.\<close>

definition utf8_cont :: "nat \<Rightarrow> bool" where
  "utf8_cont b = (128 \<le> b \<and> b \<le> 191)"

fun valid_utf8 :: "nat list \<Rightarrow> bool" where
  "valid_utf8 [] = True"
| "valid_utf8 [a] = (a < 128)"
| "valid_utf8 [a, b] = (if a < 128 then b < 128 else 194 \<le> a \<and> a \<le> 223 \<and> utf8_cont b)"
| "valid_utf8 [a, b, c] =
     (if a < 128 then valid_utf8 [b, c]
      else if 194 \<le> a \<and> a \<le> 223 then utf8_cont b \<and> c < 128
      else 224 \<le> a \<and> a \<le> 239 \<and> utf8_cont b \<and> utf8_cont c
           \<and> (a = 224 \<longrightarrow> 160 \<le> b) \<and> (a = 237 \<longrightarrow> b \<le> 159))"
| "valid_utf8 (a # b # c # d # rest) =
     (if a < 128 then valid_utf8 (b # c # d # rest)
      else if 194 \<le> a \<and> a \<le> 223 then utf8_cont b \<and> valid_utf8 (c # d # rest)
      else if 224 \<le> a \<and> a \<le> 239 then
        utf8_cont b \<and> utf8_cont c \<and> (a = 224 \<longrightarrow> 160 \<le> b) \<and> (a = 237 \<longrightarrow> b \<le> 159)
        \<and> valid_utf8 (d # rest)
      else 240 \<le> a \<and> a \<le> 244 \<and> utf8_cont b \<and> utf8_cont c \<and> utf8_cont d
           \<and> (a = 240 \<longrightarrow> 144 \<le> b) \<and> (a = 244 \<longrightarrow> b \<le> 143) \<and> valid_utf8 rest)"

definition decode_utf8 :: "bytes \<Rightarrow> error + string" where
  "decode_utf8 bs =
     (if valid_utf8 (map unat bs) then Inr (map (\<lambda>b. char_of (unat b)) bs)
      else Inl UnicodeDecodeError)"

text \<open>
  \<^verbatim>\<open>str.splitlines()\<close>: a line ends at \<^verbatim>\<open>\r\n\<close>, at one of
  \<^verbatim>\<open>\n \v \f \r \x1c \x1d \x1e\<close>, at U+0085 (bytes C2 85) and at U+2028 or U+2029
  (bytes E2 80 A8 and E2 80 A9); no empty line is reported after the last line end.
\<close>

fun splitlines_from :: "string \<Rightarrow> string \<Rightarrow> string list" where
  "splitlines_from cur [] = (if cur = [] then [] else [cur])"
| "splitlines_from cur (c # cs) =
     (let n = of_char c :: nat; ns = map of_char cs :: nat list in
      if n = 13 \<and> take 1 ns = [10] then cur # splitlines_from [] (drop 1 cs)
      else if (10 \<le> n \<and> n \<le> 13) \<or> (28 \<le> n \<and> n \<le> 30) then cur # splitlines_from [] cs
      else if n = 194 \<and> take 1 ns = [133] then cur # splitlines_from [] (drop 1 cs)
      else if n = 226 \<and> (take 2 ns = [128, 168] \<or> take 2 ns = [128, 169])
        then cur # splitlines_from [] (drop 2 cs)
      else splitlines_from (cur @ [c]) cs)"

definition splitlines :: "string \<Rightarrow> string list" where
  "splitlines s = splitlines_from [] s"

subsection \<open>\<^verbatim>\<open>hashlib.md5\<close>\<close>

text \<open>
  MD5 as RFC 1321 defines it: the message is padded with \<open>0x80\<close>, zero bytes and its length
  in bits (64 bits, little-endian) to a multiple of 64 bytes; every block of 16 little-endian
  words goes through 64 rounds; the digest is the four state words, little-endian.
\<close>

definition md5_K :: "32 word list" where
  "md5_K =
     [0xd76aa478, 0xe8c7b756, 0x242070db, 0xc1bdceee, 0xf57c0faf, 0x4787c62a, 0xa8304613,
      0xfd469501, 0x698098d8, 0x8b44f7af, 0xffff5bb1, 0x895cd7be, 0x6b901122, 0xfd987193,
      0xa679438e, 0x49b40821, 0xf61e2562, 0xc040b340, 0x265e5a51, 0xe9b6c7aa, 0xd62f105d,
      0x02441453, 0xd8a1e681, 0xe7d3fbc8, 0x21e1cde6, 0xc33707d6, 0xf4d50d87, 0x455a14ed,
      0xa9e3e905, 0xfcefa3f8, 0x676f02d9, 0x8d2a4c8a, 0xfffa3942, 0x8771f681, 0x6d9d6122,
      0xfde5380c, 0xa4beea44, 0x4bdecfa9, 0xf6bb4b60, 0xbebfbc70, 0x289b7ec6, 0xeaa127fa,
      0xd4ef3085, 0x04881d05, 0xd9d4d039, 0xe6db99e5, 0x1fa27cf8, 0xc4ac5665, 0xf4292244,
      0x432aff97, 0xab9423a7, 0xfc93a039, 0x655b59c3, 0x8f0ccc92, 0xffeff47d, 0x85845dd1,
      0x6fa87e4f, 0xfe2ce6e0, 0xa3014314, 0x4e0811a1, 0xf7537e82, 0xbd3af235, 0x2ad7d2bb,
      0xeb86d391]"

definition md5_s :: "nat list" where
  "md5_s =
     [7, 12, 17, 22, 7, 12, 17, 22, 7, 12, 17, 22, 7, 12, 17, 22,
      5, 9, 14, 20, 5, 9, 14, 20, 5, 9, 14, 20, 5, 9, 14, 20,
      4, 11, 16, 23, 4, 11, 16, 23, 4, 11, 16, 23, 4, 11, 16, 23,
      6, 10, 15, 21, 6, 10, 15, 21, 6, 10, 15, 21, 6, 10, 15, 21]"

definition md5_pad :: "bytes \<Rightarrow> bytes" where
  "md5_pad m =
     m @ [0x80] @ replicate ((119 - length m mod 64) mod 64) 0
       @ map (\<lambda>i. ucast (drop_bit (8 * i) (of_nat (8 * length m) :: 64 word))) [0..<8]"

definition le32 :: "bytes \<Rightarrow> 32 word" where
  "le32 bs = foldr (\<lambda>b w. ucast b OR push_bit 8 w) bs 0"

definition le_bytes :: "32 word \<Rightarrow> bytes" where
  "le_bytes w = map (\<lambda>i. ucast (drop_bit (8 * i) w)) [0..<4]"

fun chunks :: "nat \<Rightarrow> 'a list \<Rightarrow> 'a list list" where
  "chunks n xs = (if n = 0 \<or> xs = [] then [] else take n xs # chunks n (drop n xs))"

declare chunks.simps [simp del]

definition rotl32 :: "32 word \<Rightarrow> nat \<Rightarrow> 32 word" where
  "rotl32 w n = push_bit n w OR drop_bit (32 - n) w"

type_synonym md5_state = "32 word \<times> 32 word \<times> 32 word \<times> 32 word"

definition md5_round :: "32 word list \<Rightarrow> md5_state \<Rightarrow> nat \<Rightarrow> md5_state" where
  "md5_round M st i =
     (case st of (A, B, C, D) \<Rightarrow>
        let (F, g) =
              (if i < 16 then ((B AND C) OR (NOT B AND D), i)
               else if i < 32 then ((D AND B) OR (NOT D AND C), (5 * i + 1) mod 16)
               else if i < 48 then (B XOR C XOR D, (3 * i + 5) mod 16)
               else (C XOR (B OR NOT D), (7 * i) mod 16));
            F' = F + A + md5_K ! i + M ! g
        in (D, B + rotl32 F' (md5_s ! i), B, C))"

definition md5_chunk :: "md5_state \<Rightarrow> bytes \<Rightarrow> md5_state" where
  "md5_chunk st chunk =
     (case st of (a0, b0, c0, d0) \<Rightarrow>
        (case foldl (md5_round (map le32 (chunks 4 chunk))) st [0..<64] of
           (A, B, C, D) \<Rightarrow> (a0 + A, b0 + B, c0 + C, d0 + D)))"

definition md5_digest :: "bytes \<Rightarrow> bytes" where
  "md5_digest m =
     (case foldl md5_chunk (0x67452301, 0xefcdab89, 0x98badcfe, 0x10325476)
             (chunks 64 (md5_pad m)) of
        (a, b, c, d) \<Rightarrow> le_bytes a @ le_bytes b @ le_bytes c @ le_bytes d)"

definition md5_hexdigest :: "bytes \<Rightarrow> string" where
  "md5_hexdigest m = hexlify (md5_digest m)"

subsection \<open>\<^verbatim>\<open>base64.b64encode\<close>\<close>

definition b64char :: "nat \<Rightarrow> char" where
  "b64char n =
     ''ABCDEFGHIJKLMNOPQRSTUVWXYZabcdefghijklmnopqrstuvwxyz0123456789+/'' ! (n mod 64)"

fun b64encode :: "bytes \<Rightarrow> string" where
  "b64encode [] = []"
| "b64encode [a] =
     (let n = unat a * 65536 in
      [b64char (n div 262144), b64char (n div 4096), CHR ''='', CHR ''=''])"
| "b64encode [a, b] =
     (let n = unat a * 65536 + unat b * 256 in
      [b64char (n div 262144), b64char (n div 4096), b64char (n div 64), CHR ''=''])"
| "b64encode (a # b # c # rest) =
     (let n = unat a * 65536 + unat b * 256 + unat c in
      [b64char (n div 262144), b64char (n div 4096), b64char (n div 64), b64char n]
      @ b64encode rest)"

subsection \<open>\<^verbatim>\<open>Cryptodome\<close>: AES in CBC mode and \<^verbatim>\<open>Padding.unpad\<close>\<close>

text \<open>
  The block cipher itself is a parameter \<open>D\<close>: \<open>D key block\<close> is the AES decryption of one
  16-byte block.  The mode of operation, the checks of \<^verbatim>\<open>AES.new\<close> and \<^verbatim>\<open>decrypt\<close>, and
  the padding are written out.
\<close>

record aes_cbc_ctx =
  ctx_key :: bytes
  ctx_iv :: bytes

definition AES_new :: "bytes \<Rightarrow> bytes \<Rightarrow> error + aes_cbc_ctx" where
  "AES_new key iv =
     (if length key \<in> {16, 24, 32} then Inr \<lparr>ctx_key = key, ctx_iv = iv\<rparr>
      else Inl (ValueError (''Incorrect AES key length ('' @ str_int (int (length key)) @ '' bytes)'')))"

fun cbc_chain :: "(bytes \<Rightarrow> bytes) \<Rightarrow> bytes \<Rightarrow> bytes list \<Rightarrow> bytes" where
  "cbc_chain D prev [] = []"
| "cbc_chain D prev (c # cs) = map (\<lambda>(x, y). x XOR y) (zip (D c) prev) @ cbc_chain D c cs"

definition cbc_decrypt :: "(bytes \<Rightarrow> bytes \<Rightarrow> bytes) \<Rightarrow> aes_cbc_ctx \<Rightarrow> bytes \<Rightarrow> error + bytes" where
  "cbc_decrypt D ctx ciphertext =
     (if length ciphertext mod 16 \<noteq> 0
      then Inl (ValueError ''Data must be padded to 16 byte boundary in CBC mode'')
      else Inr (cbc_chain (D (ctx_key ctx)) (ctx_iv ctx) (chunks 16 ciphertext)))"

definition unpad :: "bytes \<Rightarrow> nat \<Rightarrow> error + bytes" where
  "unpad padded_data block_size =
     (let pdata_len = length padded_data in
      if pdata_len = 0 then Inl (ValueError ''Zero-length input cannot be unpadded'')
      else if pdata_len mod block_size \<noteq> 0 then Inl (ValueError ''Input data is not padded'')
      else
        let padding_len = unat (last padded_data) in
        if padding_len < 1 \<or> padding_len > min block_size pdata_len
        then Inl (ValueError ''Padding is incorrect.'')
        else if drop (pdata_len - padding_len) padded_data
                \<noteq> replicate padding_len (of_nat padding_len)
        then Inl (ValueError ''PKCS#7 padding is incorrect.'')
        else Inr (take (pdata_len - padding_len) padded_data))"

subsection \<open>Python dictionaries\<close>

text \<open>\<^verbatim>\<open>d[k] = v\<close>: an existing key keeps its place, a new key goes last.\<close>

fun dict_set :: "(string \<times> 'v) list \<Rightarrow> string \<Rightarrow> 'v \<Rightarrow> (string \<times> 'v) list" where
  "dict_set [] k v = [(k, v)]"
| "dict_set ((k', v') # d) k v = (if k' = k then (k, v) # d else (k', v') # dict_set d k v)"

text \<open>\<^verbatim>\<open>d.update(e)\<close>: every item of \<open>e\<close> is stored in \<open>d\<close>, in the order of \<open>e\<close>.\<close>

fun dict_update :: "(string \<times> 'v) list \<Rightarrow> (string \<times> 'v) list \<Rightarrow> (string \<times> 'v) list" where
  "dict_update d [] = d"
| "dict_update d ((k, v) # e) = dict_update (dict_set d k v) e"

text \<open>\<^verbatim>\<open>obj[k]\<close> for a string key \<open>k\<close>: only a \<^verbatim>\<open>dict\<close> that has the key answers.\<close>

fun getitem :: "json \<Rightarrow> string \<Rightarrow> error + json" where
  "getitem (JDict d) k = (case map_of d k of None \<Rightarrow> Inl (KeyError k) | Some v \<Rightarrow> Inr v)"
| "getitem _ k = Inl TypeError"

text \<open>
  \<^verbatim>\<open>obj[p1]...[pn][k] = v\<close>.  Python reaches the inner dictionary by reference and changes it
  in place; here the dictionaries on the path are rebuilt around the changed one.
\<close>

fun setitem_path :: "json \<Rightarrow> string list \<Rightarrow> string \<Rightarrow> json \<Rightarrow> error + json" where
  "setitem_path (JDict d) [] k v = Inr (JDict (dict_set d k v))"
| "setitem_path (JDict d) (p # ps) k v =
     (case map_of d p of
        None \<Rightarrow> Inl (KeyError p)
      | Some sub \<Rightarrow>
          (case setitem_path sub ps k v of
             Inl err \<Rightarrow> Inl err
           | Inr sub' \<Rightarrow> Inr (JDict (dict_set d p sub'))))"
| "setitem_path _ _ k v = Inl TypeError"

section \<open>Session key derivation\<close>

text \<open>
  Lines 329 to 332 of \<^verbatim>\<open>get_session_key\<close>:
  \<^verbatim>\<open>
  derived_key_array = bytearray()
  for device_byte, server_byte in zip(self.device.device_key, bytes.fromhex(config_dict['key'])):
      derived_key_array.append(device_byte ^ server_byte)
  \<close>
  The loop runs over the zipped pairs with the array built so far as its state.
\<close>

fun derive_loop :: "bytes \<Rightarrow> (byte \<times> byte) list \<Rightarrow> bytes" where
  "derive_loop derived_key_array [] = derived_key_array"
| "derive_loop derived_key_array ((device_byte, server_byte) # rest) =
     derive_loop (derived_key_array @ [device_byte XOR server_byte]) rest"

definition derive_session_key :: "bytes \<Rightarrow> bytes \<Rightarrow> bytes" where
  "derive_session_key device_key server_key = derive_loop [] (zip device_key server_key)"

section \<open>The environment of the client\<close>

text \<open>
  What the client reaches through other packages and does not compute itself is a field of
  the environment: the transport (\<^verbatim>\<open>requests.Session.post\<close>, which answers with a response
  or raises), the AES decryption of one block, \<^verbatim>\<open>json.loads\<close>,
  \<^verbatim>\<open>json.dumps(..., indent=4)\<close> and \<^verbatim>\<open>int\<close> of a string.  The values of
  \<^verbatim>\<open>random.randrange(1E5, 1E6)\<close> are arguments of the functions that draw them.  The logger
  is a list of the lines logged so far, passed in and returned.
\<close>

record http_response =
  status_code :: int
  resp_text :: string

datatype body = FormData "(string \<times> json) list" | JsonBody json

record env =
  post :: "string \<Rightarrow> body \<Rightarrow> error + http_response"
  aes_decrypt_block :: "bytes \<Rightarrow> bytes \<Rightarrow> bytes"
  json_loads :: "string \<Rightarrow> error + json"
  json_dumps :: "json \<Rightarrow> string"
  py_int :: "string \<Rightarrow> error + int"

text \<open>
  \<^verbatim>\<open>pyhulu.device.Device\<close> is not among the sources; the client reads its two attributes.
\<close>

record Device =
  device_code :: string
  device_key :: bytes

record HuluClient =
  device :: Device
  extra_playlist_params :: "(string \<times> json) list"
  session_key :: bytes
  server_key :: json

section \<open>\<^verbatim>\<open>HuluClient.__get_ciphertext\<close>\<close>

definition get_ciphertext ::
  "env \<Rightarrow> string \<Rightarrow> json \<Rightarrow> string list \<Rightarrow> (error + bytes) \<times> string list" where
  "get_ciphertext e txt request lg =
     (case fromhex txt of
        Some ciphertext \<Rightarrow> (Inr ciphertext, lg)
      | None \<Rightarrow>
          (Inl (ValueError ''Error decoding response hex''),
           lg @ [''Error decoding response hex'', ''Request:'']
              @ splitlines (json_dumps e request)
              @ [''Response:'']
              @ splitlines txt))"

section \<open>\<^verbatim>\<open>HuluClient.decrypt_response\<close>\<close>

text \<open>
  \<^verbatim>\<open>AES.new\<close> stands in front of the \<^verbatim>\<open>try\<close>; \<^verbatim>\<open>decrypt\<close> and \<^verbatim>\<open>unpad\<close> stand inside
  it, and the handler catches \<^verbatim>\<open>ValueError\<close> only.
\<close>

definition decrypt_and_unpad :: "env \<Rightarrow> aes_cbc_ctx \<Rightarrow> bytes \<Rightarrow> error + bytes" where
  "decrypt_and_unpad e ctx ciphertext =
     (case cbc_decrypt (aes_decrypt_block e) ctx ciphertext of
        Inl err \<Rightarrow> Inl err
      | Inr padded \<Rightarrow> unpad padded 16)"

definition decrypt_response ::
  "env \<Rightarrow> bytes \<Rightarrow> bytes \<Rightarrow> string list \<Rightarrow> (error + json) \<times> string list" where
  "decrypt_response e key ciphertext lg =
     (case AES_new key (replicate 16 0) of
        Inl err \<Rightarrow> (Inl err, lg)
      | Inr ctx \<Rightarrow>
          (case decrypt_and_unpad e ctx ciphertext of
             Inl err \<Rightarrow>
               (if isinstance_ValueError err
                then (Inl (ValueError ''Error decrypting response''),
                      lg @ [''Error decrypting response'',
                            ''Ciphertext:'',
                            b64encode ciphertext,
                            ''Tried decrypting with key '' @ b64encode key])
                else (Inl err, lg))
           | Inr plaintext \<Rightarrow>
               (case decode_utf8 plaintext of
                  Inl err \<Rightarrow> (Inl err, lg)
                | Inr s \<Rightarrow> (json_loads e s, lg))))"

section \<open>\<^verbatim>\<open>HuluClient.get_session_key\<close>\<close>

definition handshake_base :: "Device \<Rightarrow> int \<Rightarrow> bytes" where
  "handshake_base dev random_value =
     encode_utf8 (hexlify (device_key dev) @ '','' @ device_code dev @ '','' @ ''1'' @ '',''
                  @ str_int random_value)"

definition handshake_nonce :: "Device \<Rightarrow> int \<Rightarrow> string" where
  "handshake_nonce dev random_value = md5_hexdigest (handshake_base dev random_value)"

definition handshake_payload :: "Device \<Rightarrow> int \<Rightarrow> (string \<times> json) list" where
  "handshake_payload dev random_value =
     [(''rv'', JInt random_value),
      (''mozart_version'', JStr ''1''),
      (''region'', JStr ''US''),
      (''version'', JStr ''1''),
      (''device'', JStr (device_code dev)),
      (''encrypted_nonce'', JStr (handshake_nonce dev random_value))]"

text \<open>
  \<^verbatim>\<open>bytes.fromhex(v)\<close> for a value out of the parsed configuration; the message of the
  \<^verbatim>\<open>ValueError\<close> is given without the position it ends with.
\<close>

fun fromhex_value :: "json \<Rightarrow> error + bytes" where
  "fromhex_value (JStr s) =
     (case fromhex s of
        None \<Rightarrow> Inl (ValueError ''non-hexadecimal number found in fromhex() arg'')
      | Some bs \<Rightarrow> Inr bs)"
| "fromhex_value _ = Inl TypeError"

text \<open>
  Lines 329 to 334: \<^verbatim>\<open>config_dict['key']\<close> is read and decoded, the loop runs, and
  \<^verbatim>\<open>config_dict['key_id']\<close> is read last.
\<close>

definition session_key_of_config :: "Device \<Rightarrow> json \<Rightarrow> error + bytes \<times> json" where
  "session_key_of_config dev config_dict =
     (case getitem config_dict ''key'' of
        Inl err \<Rightarrow> Inl err
      | Inr k \<Rightarrow>
          (case fromhex_value k of
             Inl err \<Rightarrow> Inl err
           | Inr server \<Rightarrow>
               (case getitem config_dict ''key_id'' of
                  Inl err \<Rightarrow> Inl err
                | Inr key_id \<Rightarrow> Inr (derive_session_key (device_key dev) server, key_id))))"

definition get_session_key ::
  "env \<Rightarrow> Device \<Rightarrow> int \<Rightarrow> string list \<Rightarrow> (error + bytes \<times> json) \<times> string list" where
  "get_session_key e dev random_value lg =
     (let payload = handshake_payload dev random_value in
      case post e ''https://play.hulu.com/config'' (FormData payload) of
        Inl err \<Rightarrow> (Inl err, lg)
      | Inr resp \<Rightarrow>
          (case get_ciphertext e (resp_text resp) (JDict payload) lg of
             (Inl err, lg1) \<Rightarrow> (Inl err, lg1)
           | (Inr ciphertext, lg1) \<Rightarrow>
               (case decrypt_response e (device_key dev) ciphertext lg1 of
                  (Inl err, lg2) \<Rightarrow> (Inl err, lg2)
                | (Inr config_dict, lg2) \<Rightarrow> (session_key_of_config dev config_dict, lg2))))"

text \<open>\<^verbatim>\<open>HuluClient.__init__\<close>, from the device on.\<close>

definition HuluClient_init ::
  "env \<Rightarrow> Device \<Rightarrow> (string \<times> json) list \<Rightarrow> int \<Rightarrow> string list
     \<Rightarrow> (error + HuluClient) \<times> string list" where
  "HuluClient_init e dev extra random_value lg =
     (case get_session_key e dev random_value lg of
        (Inl err, lg1) \<Rightarrow> (Inl err, lg1)
      | (Inr (sk, kid), lg1) \<Rightarrow>
          (Inr \<lparr>device = dev, extra_playlist_params = extra,
                session_key = sk, server_key = kid\<rparr>, lg1))"

section \<open>\<^verbatim>\<open>HuluClient.load_playlist\<close>\<close>

definition playlist_defaults :: "HuluClient \<Rightarrow> int \<Rightarrow> string \<Rightarrow> int \<Rightarrow> (string \<times> json) list" where
  "playlist_defaults self deejay_device_id video_id rv =
     [(''device_identifier'', JStr (upper (md5_hexdigest []))),
      (''deejay_device_id'', JInt deejay_device_id),
      (''version'', JInt 1),
      (''content_eab_id'', JStr video_id),
      (''rv'', JInt rv),
      (''kv'', server_key self)]"

definition playlist_params :: "HuluClient \<Rightarrow> int \<Rightarrow> string \<Rightarrow> int \<Rightarrow> (string \<times> json) list" where
  "playlist_params self deejay_device_id video_id rv =
     dict_update (playlist_defaults self deejay_device_id video_id rv)
       (extra_playlist_params self)"

definition load_playlist ::
  "env \<Rightarrow> HuluClient \<Rightarrow> string \<Rightarrow> int \<Rightarrow> string list \<Rightarrow> (error + json) \<times> string list" where
  "load_playlist e self video_id rv lg =
     (case py_int e (device_code (device self)) of
        Inl err \<Rightarrow> (Inl err, lg)
      | Inr deejay_device_id \<Rightarrow>
          (let params = playlist_params self deejay_device_id video_id rv in
           case post e ''https://play.hulu.com/v4/playlist'' (JsonBody (JDict params)) of
             Inl err \<Rightarrow> (Inl err, lg)
           | Inr resp \<Rightarrow>
               (case get_ciphertext e (resp_text resp) (JDict params) lg of
                  (Inl err, lg1) \<Rightarrow> (Inl err, lg1)
                | (Inr ciphertext, lg1) \<Rightarrow>
                    decrypt_response e (session_key self) ciphertext lg1)))"

section \<open>\<^verbatim>\<open>HuluClient.load_playlist_six\<close>\<close>

text \<open>
  Both dictionaries are built on every call, each with a random value of its own; one of
  them is sent.
\<close>

definition hevc_params :: "HuluClient \<Rightarrow> string \<Rightarrow> int \<Rightarrow> int \<Rightarrow> json" where
  "hevc_params self video_id device_id rv =
     JDict
      [(''device_identifier'', JStr (upper (md5_hexdigest []))),
       (''deejay_device_id'', JInt device_id),
       (''version'', JInt 1),
       (''all_cdn'', JBool True),
       (''content_eab_id'', JStr video_id),
       (''region'', JStr ''US''),
       (''xlink_support'', JBool False),
       (''device_ad_id'', JStr ''5DFEB7AD-3651-8C6A-8302-56EC694FD9E8''),
       (''limit_ad_tracking'', JBool False),
       (''ignore_kids_block'', JBool False),
       (''guid'', JStr ''0BFDBD0D05D1DF844899A7D608B95BBE''),
       (''rv'', JInt rv),
       (''kv'', server_key self),
       (''cp_session_id'', JStr ''4408CF3E-D697-B2EA-A70A-4769B8D072F1''),
       (''unencrypted'', JBool True),
       (''network_mode'', JStr ''wifi''),
       (''interface_version'', JStr ''1.3.0-alpha.1''),
       (''play_intent'', JStr ''resume''),
       (''playback'', JDict
         [(''version'', JInt 2),
          (''video'', JDict
            [(''codecs'', JDict
              [(''selection_mode'', JStr ''ALL''),
               (''values'', JList
                 [JDict
                    [(''type'', JStr ''H265''),
                     (''profile'', JStr ''MAIN_10''),
                     (''width'', JInt 3840),
                     (''height'', JInt 2160),
                     (''framerate'', JInt 60),
                     (''level'', JStr ''5.1''),
                     (''tier'', JStr ''MAIN'')]])
             ])]),
          (''audio'', JDict
            [(''codecs'', JDict
              [(''values'', JList [JDict [(''type'', JStr ''EC3'')], JDict [(''type'', JStr ''AAC'')]]),
               (''selection_mode'', JStr ''ALL'')])]),
          (''drm'', JDict
            [(''values'', JList
               [JDict [(''type'', JStr ''WIDEVINE''),
                       (''version'', JStr ''MODULAR''),
                       (''security_level'', JStr ''L3'')],
                JDict [(''type'', JStr ''PLAYREADY''),
                       (''version'', JStr ''V2''),
                       (''security_level'', JStr ''SL2000'')]]),
             (''selection_mode'', JStr ''ALL'')]),
          (''manifest'', JDict
            [(''type'', JStr ''DASH''),
             (''https'', JBool True),
             (''multiple_cdns'', JBool True),
             (''patch_updates'', JBool True),
             (''hulu_types'', JBool True),
             (''live_dai'', JBool True),
             (''secondary_audio'', JBool True),
             (''live_fragment_delay'', JInt 3)]),
          (''trusted_execution_environment'', JBool True),
          (''segments'', JDict
            [(''values'', JList
               [JDict [(''type'', JStr ''FMP4''),
                       (''encryption'', JDict [(''mode'', JStr ''CENC''), (''type'', JStr ''CENC'')]),
                       (''https'', JBool True)]]),
             (''selection_mode'', JStr ''ONE'')])])]"

definition avc_params :: "HuluClient \<Rightarrow> string \<Rightarrow> int \<Rightarrow> int \<Rightarrow> json" where
  "avc_params self video_id device_id rv =
     JDict
      [(''device_identifier'', JStr (upper (md5_hexdigest []))),
       (''deejay_device_id'', JInt device_id),
       (''version'', JInt 1),
       (''all_cdn'', JBool True),
       (''content_eab_id'', JStr video_id),
       (''region'', JStr ''US''),
       (''xlink_support'', JBool False),
       (''device_ad_id'', JStr ''5DFEB7AD-3651-8C6A-8302-56EC694FD9E8''),
       (''limit_ad_tracking'', JBool False),
       (''ignore_kids_block'', JBool False),
       (''guid'', JStr ''0BFDBD0D05D1DF844899A7D608B95BBE''),
       (''rv'', JInt rv),
       (''kv'', server_key self),
       (''cp_session_id'', JStr ''4408CF3E-D697-B2EA-A70A-4769B8D072F1''),
       (''unencrypted'', JBool True),
       (''network_mode'', JStr ''wifi''),
       (''interface_version'', JStr ''1.3.0-alpha.1''),
       (''play_intent'', JStr ''resume''),
       (''playback'', JDict
         [(''version'', JInt 2),
          (''video'', JDict
            [(''codecs'', JDict
              [(''selection_mode'', JStr ''ALL''),
               (''values'', JList
                 [JDict
                    [(''width'', JInt 1920),
                     (''level'', JStr ''4.1''),
                     (''height'', JInt 1080),
                     (''profile'', JStr ''HIGH''),
                     (''type'', JStr ''H264'')]])
             ])]),
          (''audio'', JDict
            [(''codecs'', JDict
              [(''values'', JList [JDict [(''type'', JStr ''EC3'')], JDict [(''type'', JStr ''AAC'')]]),
               (''selection_mode'', JStr ''ALL'')])]),
          (''drm'', JDict
            [(''values'', JList
               [JDict [(''type'', JStr ''WIDEVINE''),
                       (''version'', JStr ''MODULAR''),
                       (''security_level'', JStr ''L3'')],
                JDict [(''type'', JStr ''PLAYREADY''),
                       (''version'', JStr ''V2''),
                       (''security_level'', JStr ''SL2000'')]]),
             (''selection_mode'', JStr ''ALL'')]),
          (''manifest'', JDict
            [(''type'', JStr ''DASH''),
             (''https'', JBool True),
             (''multiple_cdns'', JBool True),
             (''patch_updates'', JBool True),
             (''hulu_types'', JBool True),
             (''live_dai'', JBool True),
             (''secondary_audio'', JBool True),
             (''live_fragment_delay'', JInt 3)]),
          (''trusted_execution_environment'', JBool True),
          (''segments'', JDict
            [(''values'', JList
               [JDict [(''type'', JStr ''FMP4''),
                       (''encryption'', JDict [(''mode'', JStr ''CENC''), (''type'', JStr ''CENC'')]),
                       (''https'', JBool True)]]),
             (''selection_mode'', JStr ''ONE'')])])]"

definition six_params ::
  "HuluClient \<Rightarrow> string \<Rightarrow> int \<Rightarrow> bool \<Rightarrow> bool \<Rightarrow> int \<Rightarrow> int \<Rightarrow> error + json" where
  "six_params self video_id device_id hdr hevc rv_hevc rv_avc =
     (let params = (if hevc then hevc_params self video_id device_id rv_hevc
                    else avc_params self video_id device_id rv_avc) in
      if hdr then
        (case setitem_path params [''playback'', ''video''] ''dynamic_range''
                (JStr ''DOLBY_VISION'') of
           Inl err \<Rightarrow> Inl err
         | Inr params1 \<Rightarrow> setitem_path params1 [''playback'', ''drm''] ''multi_key'' (JBool True))
      else Inr params)"

text \<open>\<^verbatim>\<open>resp.raise_for_status()\<close> raises for the statuses 400 to 599.\<close>

definition raise_for_status :: "http_response \<Rightarrow> error + unit" where
  "raise_for_status resp =
     (if 400 \<le> status_code resp \<and> status_code resp < 600
      then Inl (HTTPError (status_code resp) (resp_text resp))
      else Inr ())"

definition load_playlist_six ::
  "env \<Rightarrow> HuluClient \<Rightarrow> string \<Rightarrow> int \<Rightarrow> bool \<Rightarrow> bool \<Rightarrow> int \<Rightarrow> int \<Rightarrow> error + json" where
  "load_playlist_six e self video_id device_id hdr hevc rv_hevc rv_avc =
     (case six_params self video_id device_id hdr hevc rv_hevc rv_avc of
        Inl err \<Rightarrow> Inl err
      | Inr params \<Rightarrow>
          (case post e ''https://play.hulu.com/v6/playlist'' (JsonBody params) of
             Inl err \<Rightarrow> Inl err
           | Inr resp \<Rightarrow>
               (case raise_for_status resp of
                  Inl err \<Rightarrow> Inl err
                | Inr _ \<Rightarrow> json_loads e (resp_text resp))))"

section \<open>\<^verbatim>\<open>hulu.py\<close>: the extra playlist parameters of the client\<close>

text \<open>
  Lines 188 to 201:
  \<^verbatim>\<open>
  audio_codecs = [{'type': 'AAC'}]
  if not args.force_2ch:
      audio_codecs.append({'type': 'EC3'})
  clients = {'chrome': create_client('chrome', jar, proxy=proxy, extra_playlist_params={
      'playback': {'audio': {'codecs': {'values': audio_codecs}}}})}
  \<close>
\<close>

definition audio_codecs :: "bool \<Rightarrow> json list" where
  "audio_codecs force_2ch =
     [JDict [(''type'', JStr ''AAC'')]]
     @ (if \<not> force_2ch then [JDict [(''type'', JStr ''EC3'')]] else [])"

definition chrome_extra_playlist_params :: "bool \<Rightarrow> (string \<times> json) list" where
  "chrome_extra_playlist_params force_2ch =
     [(''playback'', JDict
        [(''audio'', JDict
           [(''codecs'', JDict
              [(''values'', JList (audio_codecs force_2ch))])])])]"

text \<open>Reading a value at a path of keys, \<^verbatim>\<open>obj[p1]...[pn]\<close>.\<close>

fun getitem_path :: "json \<Rightarrow> string list \<Rightarrow> error + json" where
  "getitem_path obj [] = Inr obj"
| "getitem_path obj (p # ps) =
     (case getitem obj p of Inl err \<Rightarrow> Inl err | Inr sub \<Rightarrow> getitem_path sub ps)"

section \<open>The specification's vocabulary\<close>

text \<open>
  The names the specification gives to the two errors the client raises itself (lines 349
  and 285) and to the error of \<^verbatim>\<open>raise_for_status\<close>.
\<close>

definition MalformedEnvelope :: error where
  "MalformedEnvelope = ValueError ''Error decoding response hex''"

definition DecryptionError :: error where
  "DecryptionError = ValueError ''Error decrypting response''"

definition RequestFailed :: "int \<Rightarrow> string \<Rightarrow> error" where
  "RequestFailed status body = HTTPError status body"

text \<open>
  The specification's ``valid even-length hex'': an even number of characters, each a hex
  digit.
\<close>

definition spec_even_length_hex :: "string \<Rightarrow> bool" where
  "spec_even_length_hex s = (even (length s) \<and> list_all (\<lambda>c. hexval c \<noteq> None) s)"

text \<open>
  The specification's ``deep-merged over the defaults'': an item of the extra mapping
  replaces the default's, except that where both values are mappings they are merged in
  the same way.
\<close>

fun spec_deep_merge :: "(string \<times> json) list \<Rightarrow> (string \<times> json) list \<Rightarrow> (string \<times> json) list" where
  "spec_deep_merge d [] = d"
| "spec_deep_merge d ((k, v) # e) =
     spec_deep_merge
       (dict_set d k
          (case v of
             JDict ev \<Rightarrow> (case map_of d k of
                           Some (JDict dv) \<Rightarrow> JDict (spec_deep_merge dv ev)
                         | _ \<Rightarrow> v)
           | _ \<Rightarrow> v))
       e"

fun is_dict :: "json \<Rightarrow> bool" where
  "is_dict (JDict _) = True"
| "is_dict _ = False"

section \<open>An environment to run the client in\<close>

text \<open>
  A small stand-in for the service and the libraries, for running the definitions on
  concrete inputs: a block cipher that XORs the block with the first 16 bytes of the key, a
  parser that knows three documents, a transport that answers the configuration request
  with one response, the request to the \<open>v4\<close> address with a second and every other
  request with a third.
\<close>

definition example_cipher :: "bytes \<Rightarrow> bytes \<Rightarrow> bytes" where
  "example_cipher key block = map (\<lambda>(x, y). x XOR y) (zip block (take 16 key))"

definition config_ff :: json where
  "config_ff = JDict [(''key'', JStr ''ffffffffffffffffffffffffffffffff''), (''key_id'', JStr ''k1'')]"

definition config_short :: json where
  "config_short = JDict [(''key'', JStr ''ffffffff''), (''key_id'', JStr ''k2'')]"

definition playlist_doc :: json where
  "playlist_doc = JDict [(''stream_url'', JStr ''https://example.com/a.mpd'')]"

definition example_json_loads :: "string \<Rightarrow> error + json" where
  \<open>example_json_loads s =
     (if s = ''{"key":"ffffffffffffffffffffffffffffffff","key_id":"k1"}''
        then Inr config_ff
      else if s = ''{"key":"ffffffff","key_id":"k2"}''
        then Inr config_short
      else if s = ''{"stream_url":"https://example.com/a.mpd"}''
        then Inr playlist_doc
      else Inl JSONDecodeError)\<close>

definition example_int :: "string \<Rightarrow> error + int" where
  "example_int s =
     (if s \<noteq> [] \<and> list_all (\<lambda>c. 48 \<le> (of_char c :: nat) \<and> (of_char c :: nat) \<le> 57) s
      then Inr (foldl (\<lambda>acc c. 10 * acc + (of_char c - 48)) 0 s)
      else Inl (ValueError ''invalid literal for int() with base 10''))"

definition example_env :: "http_response \<Rightarrow> http_response \<Rightarrow> http_response \<Rightarrow> env" where
  "example_env config_resp playlist_resp six_resp =
     \<lparr>post = (\<lambda>url b. if url = ''https://play.hulu.com/config'' then Inr config_resp
                      else if url = ''https://play.hulu.com/v4/playlist'' then Inr playlist_resp
                      else Inr six_resp),
      aes_decrypt_block = example_cipher,
      json_loads = example_json_loads,
      json_dumps = (\<lambda>j. ''{}''),
      py_int = example_int\<rparr>"

text \<open>
  Three envelopes, as bytes and as the service sends them.  Under \<open>example_cipher\<close> they
  are the encryptions of the three documents of \<open>example_json_loads\<close>: the first with 16
  zero bytes as key, the second with the bytes 1 to 16, the third with 16 bytes \<open>0xff\<close>.
\<close>

definition envelope_ff :: bytes where
  "envelope_ff =
     [123, 34, 107, 101, 121, 34, 58, 34, 102, 102, 102, 102, 102, 102, 102, 102, 29, 68,
      13, 3, 31, 68, 92, 68, 0, 0, 0, 0, 0, 0, 0, 0, 123, 34, 107, 101, 121, 34, 58, 34,
      34, 44, 34, 107, 101, 121, 95, 105, 31, 0, 81, 71, 18, 19, 24, 95, 42, 36, 42, 99,
      109, 113, 87, 97]"

definition envelope_short :: bytes where
  "envelope_short =
     [122, 32, 104, 97, 124, 36, 61, 42, 111, 108, 109, 106, 107, 104, 105, 118, 89, 14,
      73, 14, 28, 91, 101, 75, 2, 68, 92, 68, 13, 84, 68, 27, 72, 28, 90, 26, 9, 77, 114,
      83, 27, 94, 71, 88, 16, 74, 91, 27]"

definition envelope_playlist :: bytes where
  "envelope_playlist =
     [132, 221, 140, 139, 141, 154, 158, 146, 160, 138, 141, 147, 221, 197, 221, 151, 15,
      86, 3, 7, 72, 74, 78, 8, 39, 20, 31, 28, 78, 95, 12, 11, 159, 196, 211, 153, 153,
      216, 193, 147, 250, 150, 230, 229, 183, 166, 245, 242]"

definition config_resp_ff :: http_response where
  "config_resp_ff =
     \<lparr>status_code = 200,
      resp_text = ''7b226b6579223a2266666666666666661d440d031f445c440000000000000000''
                  @ ''7b226b6579223a22222c226b65795f691f0051471213185f2a242a636d715761''\<rparr>"

definition config_resp_short :: http_response where
  "config_resp_short =
     \<lparr>status_code = 200,
      resp_text = ''7a2068617c243d2a6f6c6d6a6b686976590e490e1c5b654b''
                  @ ''02445c440d54441b481c5a1a094d72531b5e4758104a5b1b''\<rparr>"

definition playlist_text :: string where
  "playlist_text = ''84dd8c8b8d9a9e92a08a8d93ddc5dd970f560307484a4e08''
                   @ ''27141f1c4e5f0c0b9fc4d39999d8c193fa96e6e5b7a6f5f2''"

definition playlist_resp :: http_response where
  "playlist_resp = \<lparr>status_code = 200, resp_text = playlist_text\<rparr>"

definition six_resp :: http_response where
  \<open>six_resp = \<lparr>status_code = 200,
               resp_text = ''{"stream_url":"https://example.com/a.mpd"}''\<rparr>\<close>

definition example_service :: env where
  "example_service = example_env config_resp_ff playlist_resp six_resp"

definition device_830 :: Device where
  "device_830 = \<lparr>device_code = ''830'', device_key = replicate 16 0\<rparr>"

definition device_831 :: Device where
  "device_831 = \<lparr>device_code = ''831'',
                  device_key = [1, 2, 3, 4, 5, 6, 7, 8, 9, 10, 11, 12, 13, 14, 15, 16]\<rparr>"

text \<open>The client of \<^verbatim>\<open>hulu.py\<close> after a handshake that gave the key \<open>0xff\<close> sixteen times.\<close>

definition example_client :: "bool \<Rightarrow> HuluClient" where
  "example_client force_2ch =
     \<lparr>device = device_830,
      extra_playlist_params = chrome_extra_playlist_params force_2ch,
      session_key = replicate 16 255,
      server_key = JStr ''k1''\<rparr>"

section \<open>Properties of the derivation\<close>

lemma derive_loop_map: "derive_loop acc ps = acc @ map (\<lambda>(d, s). d XOR s) ps"
  by (induction ps arbitrary: acc) auto

lemma derive_session_key_map2:
  "derive_session_key a b = map (\<lambda>(d, s). d XOR s) (zip a b)"
  by (simp add: derive_session_key_def derive_loop_map)

lemma length_derive_session_key:
  "length (derive_session_key a b) = min (length a) (length b)"
  by (simp add: derive_session_key_map2)

lemma nth_derive_session_key:
  "i < length a \<Longrightarrow> i < length b \<Longrightarrow> derive_session_key a b ! i = a ! i XOR b ! i"
  by (simp add: derive_session_key_map2)

lemma derive_session_key_take:
  "derive_session_key a b
     = derive_session_key (take (min (length a) (length b)) a) (take (min (length a) (length b)) b)"
proof -
  have "zip a b = zip (take (min (length a) (length b)) a) (take (min (length a) (length b)) b)"
    by (simp add: take_zip [symmetric])
  then show ?thesis by (simp add: derive_session_key_def)
qed

section \<open>Hex encoding and decoding\<close>

text \<open>\<^verbatim>\<open>bytes.fromhex\<close> reads back what \<^verbatim>\<open>binascii.hexlify\<close> writes.\<close>

lemma hexval_hexdigit: "n < 16 \<Longrightarrow> hexval (hexdigit n) = Some n \<and> \<not> isspace (hexdigit n)"
proof -
  assume "n < 16"
  then have "n \<in> {0, 1, 2, 3, 4, 5, 6, 7, 8, 9, 10, 11, 12, 13, 14, 15}"
    by (simp only: insert_iff empty_iff) arith
  then show ?thesis
    by (auto simp: hexdigit_def hexval_def isspace_def)
qed

lemma fromhex_hexlify: "fromhex (hexlify bs) = Some bs"
proof (induction bs)
  case Nil
  show ?case by (simp add: hexlify_def)
next
  case (Cons b bs)
  have "unat b < 256"
    using unsigned_less [of b, where ?'a = nat] by simp
  then have d: "unat b div 16 < 16"
    by simp
  have m: "unat b mod 16 < 16"
    by simp
  have "hexlify (b # bs) = hexdigit (unat b div 16) # hexdigit (unat b mod 16) # hexlify bs"
    by (simp add: hexlify_def)
  moreover have "(of_nat (unat b div 16 * 16 + unat b mod 16) :: byte) = b"
    by simp
  ultimately show ?case
    using Cons hexval_hexdigit [OF d] hexval_hexdigit [OF m] by simp
qed

section \<open>Running the handshake in the example environment\<close>

lemma fromhex_config_resp_ff: "fromhex (resp_text config_resp_ff) = Some envelope_ff"
  by code_simp

lemma fromhex_config_resp_short: "fromhex (resp_text config_resp_short) = Some envelope_short"
  by code_simp

lemma fromhex_playlist_text: "fromhex playlist_text = Some envelope_playlist"
  by code_simp

lemma decrypt_envelope_ff:
  "decrypt_response (example_env r1 r2 r3) (replicate 16 0) envelope_ff [] = (Inr config_ff, [])"
  by code_simp

lemma decrypt_envelope_short:
  "decrypt_response (example_env r1 r2 r3) [1, 2, 3, 4, 5, 6, 7, 8, 9, 10, 11, 12, 13, 14, 15, 16]
     envelope_short [] = (Inr config_short, [])"
  by code_simp

lemma decrypt_envelope_playlist:
  "decrypt_response (example_env r1 r2 r3) (replicate 16 255) envelope_playlist []
     = (Inr playlist_doc, [])"
  by code_simp

lemma fromhex_key_ff: "fromhex ''ffffffffffffffffffffffffffffffff'' = Some (replicate 16 255)"
  by code_simp

lemma fromhex_key_short: "fromhex ''ffffffff'' = Some [255, 255, 255, 255]"
  by code_simp

section \<open>The handshake\<close>

lemma get_ciphertext_decoded:
  "fromhex txt = Some ciphertext \<Longrightarrow> get_ciphertext e txt request lg = (Inr ciphertext, lg)"
  by (simp add: get_ciphertext_def)

lemma get_session_key_success:
  assumes "post e ''https://play.hulu.com/config''
             (FormData (handshake_payload dev random_value)) = Inr resp"
    and "fromhex (resp_text resp) = Some ciphertext"
    and "decrypt_response e (device_key dev) ciphertext lg = (Inr config_dict, lg')"
    and "getitem config_dict ''key'' = Inr (JStr k)"
    and "fromhex k = Some server"
    and "getitem config_dict ''key_id'' = Inr key_id"
  shows "get_session_key e dev random_value lg
           = (Inr (derive_session_key (device_key dev) server, key_id), lg')"
  using assms
  by (simp add: get_session_key_def Let_def get_ciphertext_decoded session_key_of_config_def)

text \<open>
  Claim C1.  When the handshake gets as far as the configuration (the request is answered,
  the answer is hex, it decrypts and parses to a mapping with a hex \<open>key\<close> and a
  \<open>key_id\<close>), the device key has 16 bytes and the decoded key material has 16 bytes too,
  then \<open>get_session_key\<close> returns a session key of 16 bytes whose byte at every index is the
  XOR of the two bytes at that index, together with the \<open>key_id\<close>.  In particular 16 zero
  bytes and 16 bytes \<open>0xff\<close> derive 16 bytes \<open>0xff\<close>; the theorem after this one runs the
  whole handshake on them.
\<close>

theorem session_key_is_bytewise_xor:
  assumes "post e ''https://play.hulu.com/config''
             (FormData (handshake_payload dev random_value)) = Inr resp"
    and "fromhex (resp_text resp) = Some ciphertext"
    and "decrypt_response e (device_key dev) ciphertext lg = (Inr config_dict, lg')"
    and "getitem config_dict ''key'' = Inr (JStr k)"
    and "fromhex k = Some server"
    and "getitem config_dict ''key_id'' = Inr key_id"
    and "length (device_key dev) = 16"
    and "length server = 16"
  shows "(\<exists>sk. get_session_key e dev random_value lg = (Inr (sk, key_id), lg')
            \<and> length sk = 16
            \<and> (\<forall>i<16. sk ! i = device_key dev ! i XOR server ! i))
         \<and> derive_session_key (replicate 16 0) (replicate 16 255) = replicate 16 255"
proof -
  have "derive_session_key (replicate 16 0) (replicate 16 255) = replicate 16 255"
    by code_simp
  moreover
  let ?sk = "derive_session_key (device_key dev) server"
  have "get_session_key e dev random_value lg = (Inr (?sk, key_id), lg')"
    using assms(1-6) by (rule get_session_key_success)
  moreover have "length ?sk = 16"
    using assms(7,8) by (simp add: length_derive_session_key)
  moreover have "\<forall>i<16. ?sk ! i = device_key dev ! i XOR server ! i"
    using assms(7,8) by (simp add: nth_derive_session_key)
  ultimately show ?thesis by blast
qed

theorem session_key_is_bytewise_xor_witness:
  "get_session_key example_service device_830 500000 []
     = (Inr (replicate 16 255, JStr ''k1''), [])"
proof -
  let ?e = example_service
  have h1: "post ?e ''https://play.hulu.com/config''
              (FormData (handshake_payload device_830 500000)) = Inr config_resp_ff"
    by (simp add: example_service_def example_env_def)
  have h3: "decrypt_response ?e (device_key device_830) envelope_ff [] = (Inr config_ff, [])"
    by (simp add: example_service_def device_830_def decrypt_envelope_ff)
  have h4: "getitem config_ff ''key'' = Inr (JStr ''ffffffffffffffffffffffffffffffff'')"
    by (simp add: config_ff_def)
  have h6: "getitem config_ff ''key_id'' = Inr (JStr ''k1'')"
    by (simp add: config_ff_def)
  have h7: "length (device_key device_830) = 16"
    by (simp add: device_830_def)
  have h8: "length (replicate 16 (255::byte)) = 16"
    by simp
  from session_key_is_bytewise_xor [OF h1 fromhex_config_resp_ff h3 h4 fromhex_key_ff h6 h7 h8]
  obtain sk where r: "get_session_key ?e device_830 500000 [] = (Inr (sk, JStr ''k1''), [])"
    and l: "length sk = 16"
    and x: "\<forall>i<16. sk ! i = device_key device_830 ! i XOR replicate 16 255 ! i"
    by blast
  have "sk = replicate 16 255"
    using l x by (intro nth_equalityI) (auto simp: device_830_def)
  with r show ?thesis by simp
qed

text \<open>
  Claim C9.  For byte arrays \<open>a\<close> and \<open>b\<close> of equal length, deriving the session key from
  \<open>(a, b)\<close> and from \<open>(b, a)\<close> gives the same bytes.
\<close>

theorem derive_session_key_commutes:
  "length a = length b \<Longrightarrow> derive_session_key a b = derive_session_key b a"
proof -
  have "map (\<lambda>(d, s). d XOR s) (zip a b)
          = map ((\<lambda>(d, s). d XOR s) \<circ> (\<lambda>(x, y). (y, x))) (zip b a)"
    by (subst zip_commute) simp
  also have "(\<lambda>(d, s). d XOR s) \<circ> (\<lambda>(x, y). (y, x)) = (\<lambda>(d::byte, s). d XOR s)"
    by (auto simp: fun_eq_iff xor.commute)
  finally show ?thesis by (simp add: derive_session_key_map2)
qed

theorem derive_session_key_commutes_witness:
  "derive_session_key [1, 2, 3] [255, 0, 16] = [254, 2, 19]
   \<and> derive_session_key [255, 0, 16] [1, 2, 3] = [254, 2, 19]"
proof -
  have h: "length [1, 2, 3 :: byte] = length [255, 0, 16 :: byte]"
    by simp
  have v: "derive_session_key [1, 2, 3] [255, 0, 16] = [254, 2, 19]"
    by (simp add: derive_session_key_def)
  from derive_session_key_commutes [OF h] v show ?thesis by simp
qed

text \<open>
  Claim C10.  When the handshake gets as far as the configuration, whatever the lengths of
  the device key and of the decoded key material, \<open>get_session_key\<close> returns (it raises
  nothing); the session key has the length of the shorter of the two and is derived from
  their prefixes of that length, the rest of the longer one being dropped.
\<close>

theorem session_key_length_is_min:
  assumes "post e ''https://play.hulu.com/config''
             (FormData (handshake_payload dev random_value)) = Inr resp"
    and "fromhex (resp_text resp) = Some ciphertext"
    and "decrypt_response e (device_key dev) ciphertext lg = (Inr config_dict, lg')"
    and "getitem config_dict ''key'' = Inr (JStr k)"
    and "fromhex k = Some server"
    and "getitem config_dict ''key_id'' = Inr key_id"
  shows "\<exists>sk. get_session_key e dev random_value lg = (Inr (sk, key_id), lg')
            \<and> length sk = min (length (device_key dev)) (length server)
            \<and> sk = derive_session_key
                     (take (min (length (device_key dev)) (length server)) (device_key dev))
                     (take (min (length (device_key dev)) (length server)) server)"
proof -
  let ?sk = "derive_session_key (device_key dev) server"
  have "get_session_key e dev random_value lg = (Inr (?sk, key_id), lg')"
    using assms by (rule get_session_key_success)
  moreover have "length ?sk = min (length (device_key dev)) (length server)"
    by (rule length_derive_session_key)
  moreover note derive_session_key_take [of "device_key dev" server]
  ultimately show ?thesis by blast
qed

theorem session_key_length_is_min_witness:
  "get_session_key (example_env config_resp_short config_resp_short config_resp_short) device_831 500000 []
     = (Inr ([254, 253, 252, 251], JStr ''k2''), [])"
proof -
  let ?e = "example_env config_resp_short config_resp_short config_resp_short"
  have h1: "post ?e ''https://play.hulu.com/config''
              (FormData (handshake_payload device_831 500000)) = Inr config_resp_short"
    by (simp add: example_env_def)
  have h3: "decrypt_response ?e (device_key device_831) envelope_short []
              = (Inr config_short, [])"
    by (simp add: device_831_def decrypt_envelope_short)
  have h4: "getitem config_short ''key'' = Inr (JStr ''ffffffff'')"
    by (simp add: config_short_def)
  have h6: "getitem config_short ''key_id'' = Inr (JStr ''k2'')"
    by (simp add: config_short_def)
  from session_key_length_is_min [OF h1 fromhex_config_resp_short h3 h4 fromhex_key_short h6]
  obtain sk where r: "get_session_key ?e device_831 500000 [] = (Inr (sk, JStr ''k2''), [])"
    and x: "sk = derive_session_key
                   (take (min (length (device_key device_831)) (length [255, 255, 255, 255 :: byte]))
                      (device_key device_831))
                   (take (min (length (device_key device_831)) (length [255, 255, 255, 255 :: byte]))
                      [255, 255, 255, 255])"
    by blast
  have "sk = [254, 253, 252, 251]"
    unfolding x by (simp add: device_831_def derive_session_key_def)
  with r show ?thesis by simp
qed

section \<open>The nonce of the handshake\<close>

lemma md5_hexdigest_empty: "md5_hexdigest [] = ''d41d8cd98f00b204e9800998ecf8427e''"
  by code_simp

lemma hexlify_zero_key: "hexlify (device_key device_830) = ''00000000000000000000000000000000''"
  by code_simp

lemma str_int_500000: "str_int 500000 = ''500000''"
  by (simp add: str_int_def digits10.simps digit10_def)

lemma handshake_base_830:
  "handshake_base device_830 500000
     = encode_utf8 ''00000000000000000000000000000000,830,1,500000''"
  unfolding handshake_base_def hexlify_zero_key str_int_500000
  by (simp add: device_830_def)

lemma md5_hexdigest_830:
  "md5_hexdigest (encode_utf8 ''00000000000000000000000000000000,830,1,500000'')
     = ''4db89dc6d802b91b9e0aa8fa9446893c''"
  by code_simp

lemma get_ciphertext_post [simp]:
  "get_ciphertext (e\<lparr>post := p\<rparr>) txt request lg = get_ciphertext e txt request lg"
  by (simp add: get_ciphertext_def cong: option.case_cong)

lemma decrypt_and_unpad_post [simp]:
  "decrypt_and_unpad (e\<lparr>post := p\<rparr>) ctx ciphertext = decrypt_and_unpad e ctx ciphertext"
  by (simp add: decrypt_and_unpad_def)

lemma decrypt_response_post [simp]:
  "decrypt_response (e\<lparr>post := p\<rparr>) key ciphertext lg = decrypt_response e key ciphertext lg"
  by (simp add: decrypt_response_def cong: sum.case_cong)

lemma get_session_key_only_request:
  "get_session_key
     (e\<lparr>post := \<lambda>url b. if url = ''https://play.hulu.com/config''
                               \<and> b = FormData (handshake_payload dev random_value)
                           then post e url b else Inl ConnectionError\<rparr>)
     dev random_value lg
   = get_session_key e dev random_value lg"
  by (simp add: get_session_key_def Let_def cong: sum.case_cong prod.case_cong)

text \<open>
  Claim C2.  The nonce of the handshake is the MD5 hex digest of the UTF-8 bytes of the
  device key in hex, the device code, \<open>1\<close> and the random value, joined by commas; it is
  the \<open>encrypted_nonce\<close> field of the payload, and that payload to the configuration address
  is the only request \<open>get_session_key\<close> makes (with a transport that refuses every other
  request the result is the same).  For device code \<open>830\<close>, 16 zero bytes as key and the random
  value 500000 the text is \<open>00000000000000000000000000000000,830,1,500000\<close> and the nonce
  is \<open>4db89dc6d802b91b9e0aa8fa9446893c\<close>.
\<close>

theorem handshake_nonce_is_md5_of_template:
  "handshake_nonce dev random_value
     = md5_hexdigest (encode_utf8 (hexlify (device_key dev) @ '','' @ device_code dev @ '',1,''
                                    @ str_int random_value))
   \<and> map_of (handshake_payload dev random_value) ''encrypted_nonce''
       = Some (JStr (handshake_nonce dev random_value))
   \<and> get_session_key
         (e\<lparr>post := \<lambda>url b. if url = ''https://play.hulu.com/config''
                                   \<and> b = FormData (handshake_payload dev random_value)
                               then post e url b else Inl ConnectionError\<rparr>)
         dev random_value lg
       = get_session_key e dev random_value lg
   \<and> handshake_base \<lparr>device_code = ''830'', device_key = replicate 16 0\<rparr> 500000
       = encode_utf8 ''00000000000000000000000000000000,830,1,500000''
   \<and> handshake_nonce \<lparr>device_code = ''830'', device_key = replicate 16 0\<rparr> 500000
       = ''4db89dc6d802b91b9e0aa8fa9446893c''"
proof (intro conjI)
  show "handshake_nonce dev random_value
     = md5_hexdigest (encode_utf8 (hexlify (device_key dev) @ '','' @ device_code dev @ '',1,''
                                    @ str_int random_value))"
    by (simp add: handshake_nonce_def handshake_base_def)
  show "map_of (handshake_payload dev random_value) ''encrypted_nonce''
       = Some (JStr (handshake_nonce dev random_value))"
    by (simp add: handshake_payload_def)
  show "get_session_key
         (e\<lparr>post := \<lambda>url b. if url = ''https://play.hulu.com/config''
                                   \<and> b = FormData (handshake_payload dev random_value)
                               then post e url b else Inl ConnectionError\<rparr>)
         dev random_value lg
       = get_session_key e dev random_value lg"
    by (rule get_session_key_only_request)
  show b: "handshake_base \<lparr>device_code = ''830'', device_key = replicate 16 0\<rparr> 500000
       = encode_utf8 ''00000000000000000000000000000000,830,1,500000''"
    using handshake_base_830 unfolding device_830_def .
  show "handshake_nonce \<lparr>device_code = ''830'', device_key = replicate 16 0\<rparr> 500000
       = ''4db89dc6d802b91b9e0aa8fa9446893c''"
    unfolding handshake_nonce_def b by (rule md5_hexdigest_830)
qed

theorem handshake_nonce_is_md5_of_template_witness:
  "map_of (handshake_payload device_830 500000) ''encrypted_nonce''
     = Some (JStr ''4db89dc6d802b91b9e0aa8fa9446893c'')"
proof -
  note t = handshake_nonce_is_md5_of_template
             [of device_830 500000 example_service "[]"]
  from t have field: "map_of (handshake_payload device_830 500000) ''encrypted_nonce''
                        = Some (JStr (handshake_nonce device_830 500000))"
    by blast
  from t have "handshake_nonce \<lparr>device_code = ''830'', device_key = replicate 16 0\<rparr> 500000
                 = ''4db89dc6d802b91b9e0aa8fa9446893c''"
    by blast
  then have "handshake_nonce device_830 500000 = ''4db89dc6d802b91b9e0aa8fa9446893c''"
    unfolding device_830_def .
  with field show ?thesis by simp
qed

section \<open>Decoding the envelope\<close>

lemma spec_even_length_hex_Cons2:
  "spec_even_length_hex (c # d # cs)
     = (hexval c \<noteq> None \<and> hexval d \<noteq> None \<and> spec_even_length_hex cs)"
  by (auto simp: spec_even_length_hex_def)

lemma fromhex_rejects_malformed:
  "list_all (\<lambda>c. \<not> isspace c) txt \<Longrightarrow> \<not> spec_even_length_hex txt \<Longrightarrow> fromhex txt = None"
proof (induction "txt" rule: fromhex.induct)
  case 1
  then show ?case by (simp add: spec_even_length_hex_def)
next
  case (2 c)
  then show ?case by simp
next
  case (3 c d cs)
  show ?case
  proof (cases "hexval c \<noteq> None \<and> hexval d \<noteq> None")
    case True
    with 3 have "fromhex cs = None"
      by (auto simp: spec_even_length_hex_Cons2)
    with 3(3) True show ?thesis by auto
  next
    case False
    with 3(3) show ?thesis by (auto split: option.splits)
  qed
qed

lemma get_ciphertext_aes [simp]:
  "get_ciphertext (e\<lparr>aes_decrypt_block := D\<rparr>) txt request lg = get_ciphertext e txt request lg"
  by (simp add: get_ciphertext_def cong: option.case_cong)

lemma get_ciphertext_rejected:
  "fromhex txt = None \<Longrightarrow>
   get_ciphertext e txt request lg
     = (Inl MalformedEnvelope,
        lg @ [''Error decoding response hex'', ''Request:''] @ splitlines (json_dumps e request)
           @ [''Response:''] @ splitlines txt)"
  by (simp add: get_ciphertext_def MalformedEnvelope_def)

lemma load_playlist_rejected:
  assumes "py_int e (device_code (device self)) = Inr deejay_device_id"
    and "post e ''https://play.hulu.com/v4/playlist''
           (JsonBody (JDict (playlist_params self deejay_device_id video_id rv))) = Inr resp"
    and "fromhex (resp_text resp) = None"
  shows "load_playlist e self video_id rv lg
           = (Inl MalformedEnvelope,
              lg @ [''Error decoding response hex'', ''Request:'']
                 @ splitlines (json_dumps e
                     (JDict (playlist_params self deejay_device_id video_id rv)))
                 @ [''Response:''] @ splitlines (resp_text resp))"
  using assms by (simp add: load_playlist_def Let_def get_ciphertext_rejected)

text \<open>
  Claim C3, amended.  A response text without whitespace that is not valid even-length hex
  is rejected by \<^verbatim>\<open>bytes.fromhex\<close>.  For every response text that \<^verbatim>\<open>bytes.fromhex\<close>
  rejects, \<open>__get_ciphertext\<close> fails with \<open>MalformedEnvelope\<close> (the \<^verbatim>\<open>ValueError\<close> of line 349)
  after logging the request and the response, and so does \<open>load_playlist\<close> when the service
  answers with that text, whatever the block cipher and the session key are: nothing is
  decrypted.
\<close>

theorem malformed_envelope_is_rejected:
  "(list_all (\<lambda>c. \<not> isspace c) txt \<and> \<not> spec_even_length_hex txt \<longrightarrow> fromhex txt = None)
   \<and> (fromhex txt = None \<longrightarrow>
        get_ciphertext e txt request lg
          = (Inl MalformedEnvelope,
             lg @ [''Error decoding response hex'', ''Request:'']
                @ splitlines (json_dumps e request) @ [''Response:''] @ splitlines txt)
        \<and> (\<forall>D k deejay_device_id resp.
              py_int e (device_code (device self)) = Inr deejay_device_id
              \<and> post e ''https://play.hulu.com/v4/playlist''
                   (JsonBody (JDict (playlist_params self deejay_device_id video_id rv)))
                 = Inr resp
              \<and> resp_text resp = txt
              \<longrightarrow> load_playlist (e\<lparr>aes_decrypt_block := D\<rparr>) (self\<lparr>session_key := k\<rparr>)
                    video_id rv lg
                  = (Inl MalformedEnvelope,
                     lg @ [''Error decoding response hex'', ''Request:'']
                        @ splitlines (json_dumps e
                            (JDict (playlist_params self deejay_device_id video_id rv)))
                        @ [''Response:''] @ splitlines txt)))"
proof (intro conjI allI impI)
  assume "list_all (\<lambda>c. \<not> isspace c) txt \<and> \<not> spec_even_length_hex txt"
  then show "fromhex txt = None"
    by (simp add: fromhex_rejects_malformed)
next
  assume "fromhex txt = None"
  then show "get_ciphertext e txt request lg
          = (Inl MalformedEnvelope,
             lg @ [''Error decoding response hex'', ''Request:'']
                @ splitlines (json_dumps e request) @ [''Response:''] @ splitlines txt)"
    by (rule get_ciphertext_rejected)
next
  fix D k deejay_device_id resp
  assume f: "fromhex txt = None"
  assume h: "py_int e (device_code (device self)) = Inr deejay_device_id
              \<and> post e ''https://play.hulu.com/v4/playlist''
                   (JsonBody (JDict (playlist_params self deejay_device_id video_id rv)))
                 = Inr resp
              \<and> resp_text resp = txt"
  let ?e = "e\<lparr>aes_decrypt_block := D\<rparr>" and ?c = "self\<lparr>session_key := k\<rparr>"
  have p: "playlist_params ?c deejay_device_id video_id rv
             = playlist_params self deejay_device_id video_id rv"
    by (simp add: playlist_params_def playlist_defaults_def)
  have "py_int ?e (device_code (device ?c)) = Inr deejay_device_id"
    using h by simp
  moreover have "post ?e ''https://play.hulu.com/v4/playlist''
                   (JsonBody (JDict (playlist_params ?c deejay_device_id video_id rv))) = Inr resp"
    using h by (simp add: p)
  moreover have "fromhex (resp_text resp) = None"
    using h f by simp
  ultimately have "load_playlist ?e ?c video_id rv lg
           = (Inl MalformedEnvelope,
              lg @ [''Error decoding response hex'', ''Request:'']
                 @ splitlines (json_dumps ?e
                     (JDict (playlist_params ?c deejay_device_id video_id rv)))
                 @ [''Response:''] @ splitlines (resp_text resp))"
    by (rule load_playlist_rejected)
  then show "load_playlist ?e ?c video_id rv lg
                  = (Inl MalformedEnvelope,
                     lg @ [''Error decoding response hex'', ''Request:'']
                        @ splitlines (json_dumps e
                            (JDict (playlist_params self deejay_device_id video_id rv)))
                        @ [''Response:''] @ splitlines txt)"
    using h by (simp add: p)
qed

text \<open>
  Claim C3 as stated fails: \<open>ab cd\<close> has five characters, one of them no hex digit, and is
  decoded to two bytes, since whitespace between the bytes is skipped.
\<close>

theorem malformed_envelope_counterexample:
  "\<not> spec_even_length_hex ''ab cd''
   \<and> get_ciphertext example_service ''ab cd'' JNull []
       = (Inr [171, 205], [])"
  by (simp add: spec_even_length_hex_def get_ciphertext_def hexval_def isspace_def)

lemma example_int_830: "example_int ''830'' = Inr 830"
  by code_simp

lemma splitlines_examples: "splitlines ''{}'' = [''{}'']" "splitlines ''zz'' = [''zz'']"
  by code_simp+

theorem malformed_envelope_is_rejected_witness:
  "load_playlist (example_env config_resp_ff \<lparr>status_code = 200, resp_text = ''zz''\<rparr> six_resp)
     (example_client False) ''vid'' 123456 []
   = (Inl MalformedEnvelope,
      [''Error decoding response hex'', ''Request:'', ''{}'', ''Response:'', ''zz''])"
proof -
  let ?r = "\<lparr>status_code = 200, resp_text = ''zz''\<rparr>"
  let ?e = "example_env config_resp_ff ?r six_resp"
  let ?c = "example_client False"
  note t = malformed_envelope_is_rejected [of "''zz''" ?e JNull "[]" ?c "''vid''" 123456]
  have "list_all (\<lambda>c. \<not> isspace c) ''zz'' \<and> \<not> spec_even_length_hex ''zz''"
    by (simp add: isspace_def spec_even_length_hex_def hexval_def)
  with t have f: "fromhex ''zz'' = None"
    by blast
  have h1: "py_int ?e (device_code (device ?c)) = Inr 830"
    by (simp add: example_env_def example_client_def device_830_def example_int_830)
  have h2: "post ?e ''https://play.hulu.com/v4/playlist''
              (JsonBody (JDict (playlist_params ?c 830 ''vid'' 123456))) = Inr ?r"
    by (simp add: example_env_def)
  have e: "?e\<lparr>aes_decrypt_block := example_cipher\<rparr> = ?e"
    by (simp add: example_env_def)
  have c: "?c\<lparr>session_key := replicate 16 255\<rparr> = ?c"
    by (simp add: example_client_def)
  from t f have "\<forall>D k deejay_device_id resp.
       py_int ?e (device_code (device ?c)) = Inr deejay_device_id
       \<and> post ?e ''https://play.hulu.com/v4/playlist''
            (JsonBody (JDict (playlist_params ?c deejay_device_id ''vid'' 123456))) = Inr resp
       \<and> resp_text resp = ''zz''
       \<longrightarrow> load_playlist (?e\<lparr>aes_decrypt_block := D\<rparr>) (?c\<lparr>session_key := k\<rparr>) ''vid'' 123456 []
           = (Inl MalformedEnvelope,
              [] @ [''Error decoding response hex'', ''Request:'']
                 @ splitlines (json_dumps ?e
                     (JDict (playlist_params ?c deejay_device_id ''vid'' 123456)))
                 @ [''Response:''] @ splitlines ''zz'')"
    by blast
  then have "load_playlist (?e\<lparr>aes_decrypt_block := example_cipher\<rparr>)
          (?c\<lparr>session_key := replicate 16 255\<rparr>) ''vid'' 123456 []
        = (Inl MalformedEnvelope,
           [] @ [''Error decoding response hex'', ''Request:'']
              @ splitlines (json_dumps ?e (JDict (playlist_params ?c 830 ''vid'' 123456)))
              @ [''Response:''] @ splitlines ''zz'')"
    using h1 h2 by simp
  then show ?thesis
    unfolding e c by (simp add: example_env_def splitlines_examples)
qed

section \<open>Decrypting a response\<close>

lemma replicate_16: "replicate 16 x = [x, x, x, x, x, x, x, x, x, x, x, x, x, x, x, x]"
  by (simp add: numeral_eq_Suc)

lemma AES_new_ok:
  "length key \<in> {16, 24, 32} \<Longrightarrow> AES_new key iv = Inr \<lparr>ctx_key = key, ctx_iv = iv\<rparr>"
  by (simp add: AES_new_def)

lemma unpad_error_is_ValueError: "unpad padded n = Inl err \<Longrightarrow> isinstance_ValueError err"
  by (auto simp: unpad_def Let_def split: if_splits)

lemma decrypt_and_unpad_error_is_ValueError:
  "decrypt_and_unpad e ctx ciphertext = Inl err \<Longrightarrow> isinstance_ValueError err"
  by (auto simp: decrypt_and_unpad_def cbc_decrypt_def split: if_splits sum.splits
      dest: unpad_error_is_ValueError)

text \<open>PKCS#7: a message followed by \<open>n\<close> bytes of value \<open>n\<close>, up to the block size.\<close>

lemma unpad_removes_pkcs7_padding:
  assumes "1 \<le> n" and "n \<le> 16" and "(length m + n) mod 16 = 0"
  shows "unpad (m @ replicate n (of_nat n)) 16 = Inr m"
proof -
  have u: "unat (of_nat n :: byte) = n"
    using assms(2) by (simp add: unat_of_nat)
  have l: "last (m @ replicate n (of_nat n :: byte)) = of_nat n"
    using assms(1) by (cases n) simp_all
  show ?thesis
    using assms by (simp add: unpad_def Let_def l u)
qed

lemma cbc_chain_zero_iv:
  "length (D c) = 16 \<Longrightarrow> cbc_chain D (replicate 16 0) (c # cs) = D c @ cbc_chain D c cs"
proof -
  assume "length (D c) = 16"
  then have "map (\<lambda>(x, y). x XOR y) (zip (D c) (replicate 16 (0::byte))) = D c"
    by (intro nth_equalityI) simp_all
  then show ?thesis by simp
qed

text \<open>
  Claim C4.  For a key of an AES length and every ciphertext: when the ciphertext is a
  whole number of blocks, what \<open>decrypt_response\<close> unpads is the CBC decryption under the
  key with 16 zero bytes as initialisation vector; when decryption or the removal of the
  padding fails, \<open>decrypt_response\<close> fails with \<open>DecryptionError\<close> (the \<^verbatim>\<open>ValueError\<close> of line
  285), having logged the ciphertext and the key in base64; when they succeed, the result
  is the parse of the plaintext and nothing is logged; and \<open>unpad\<close> takes a PKCS#7 padding
  off again.
\<close>

theorem decrypt_response_cbc_zero_iv:
  assumes "length key \<in> {16, 24, 32}"
  shows "(length ciphertext mod 16 = 0 \<longrightarrow>
            decrypt_and_unpad e \<lparr>ctx_key = key, ctx_iv = replicate 16 0\<rparr> ciphertext
              = unpad (cbc_chain (aes_decrypt_block e key) (replicate 16 0) (chunks 16 ciphertext)) 16)
         \<and> (\<forall>err. decrypt_and_unpad e \<lparr>ctx_key = key, ctx_iv = replicate 16 0\<rparr> ciphertext
                     = Inl err \<longrightarrow>
               decrypt_response e key ciphertext lg
                 = (Inl DecryptionError,
                    lg @ [''Error decrypting response'', ''Ciphertext:'', b64encode ciphertext,
                          ''Tried decrypting with key '' @ b64encode key]))
         \<and> (\<forall>plaintext. decrypt_and_unpad e \<lparr>ctx_key = key, ctx_iv = replicate 16 0\<rparr> ciphertext
                     = Inr plaintext \<longrightarrow>
               decrypt_response e key ciphertext lg
                 = (case decode_utf8 plaintext of
                      Inl err \<Rightarrow> (Inl err, lg)
                    | Inr s \<Rightarrow> (json_loads e s, lg)))
         \<and> (\<forall>m n. 1 \<le> n \<and> n \<le> 16 \<and> (length m + n) mod 16 = 0 \<longrightarrow>
               unpad (m @ replicate n (of_nat n)) 16 = Inr m)"
proof (intro conjI allI impI)
  assume "length ciphertext mod 16 = 0"
  then show "decrypt_and_unpad e \<lparr>ctx_key = key, ctx_iv = replicate 16 0\<rparr> ciphertext
              = unpad (cbc_chain (aes_decrypt_block e key) (replicate 16 0) (chunks 16 ciphertext)) 16"
    by (simp add: decrypt_and_unpad_def cbc_decrypt_def)
next
  fix err
  assume f: "decrypt_and_unpad e \<lparr>ctx_key = key, ctx_iv = replicate 16 0\<rparr> ciphertext = Inl err"
  then have "isinstance_ValueError err"
    by (rule decrypt_and_unpad_error_is_ValueError)
  with f show "decrypt_response e key ciphertext lg
                 = (Inl DecryptionError,
                    lg @ [''Error decrypting response'', ''Ciphertext:'', b64encode ciphertext,
                          ''Tried decrypting with key '' @ b64encode key])"
    by (simp add: decrypt_response_def AES_new_ok [OF assms] DecryptionError_def)
next
  fix plaintext
  assume "decrypt_and_unpad e \<lparr>ctx_key = key, ctx_iv = replicate 16 0\<rparr> ciphertext
            = Inr plaintext"
  then show "decrypt_response e key ciphertext lg
                 = (case decode_utf8 plaintext of
                      Inl err \<Rightarrow> (Inl err, lg)
                    | Inr s \<Rightarrow> (json_loads e s, lg))"
    by (simp add: decrypt_response_def AES_new_ok [OF assms])
next
  fix m :: bytes and n :: nat
  assume "1 \<le> n \<and> n \<le> 16 \<and> (length m + n) mod 16 = 0"
  then show "unpad (m @ replicate n (of_nat n)) 16 = Inr m"
    by (simp add: unpad_removes_pkcs7_padding)
qed

lemma b64encode_key_ff: "b64encode (replicate 16 255) = ''/////////////////////w==''"
  by (simp add: replicate_16 b64char_def)

lemma b64encode_envelope_ff:
  "b64encode envelope_ff
     = ''eyJrZXkiOiJmZmZmZmZmZh1EDQMfRFxEAAAAAAAAAAB7ImtleSI6IiIsImtleV9pHwBRRxITGF8qJCpjbXFXYQ==''"
  by (simp add: b64char_def envelope_ff_def)

lemma decrypt_envelope_ff_wrong_key:
  "decrypt_and_unpad (example_env r1 r2 r3) \<lparr>ctx_key = replicate 16 255, ctx_iv = replicate 16 0\<rparr>
     envelope_ff = Inl (ValueError ''Padding is incorrect.'')"
  by code_simp

theorem decrypt_response_cbc_zero_iv_witness:
  "decrypt_response example_service (replicate 16 255) envelope_ff []
     = (Inl DecryptionError,
        [''Error decrypting response'', ''Ciphertext:'',
         ''eyJrZXkiOiJmZmZmZmZmZh1EDQMfRFxEAAAAAAAAAAB7ImtleSI6IiIsImtleV9pHwBRRxITGF8qJCpjbXFXYQ=='',
         ''Tried decrypting with key /////////////////////w==''])"
proof -
  have k: "length (replicate 16 (255::byte)) \<in> {16, 24, 32}"
    by simp
  from decrypt_response_cbc_zero_iv [OF k, of envelope_ff example_service "[]"]
       decrypt_envelope_ff_wrong_key [of config_resp_ff playlist_resp six_resp]
  have "decrypt_response example_service (replicate 16 255) envelope_ff []
        = (Inl DecryptionError,
           [] @ [''Error decrypting response'', ''Ciphertext:'', b64encode envelope_ff,
                 ''Tried decrypting with key '' @ b64encode (replicate 16 255)])"
    unfolding example_service_def by blast
  then show ?thesis
    unfolding b64encode_key_ff b64encode_envelope_ff by simp
qed

section \<open>The legacy playlist request\<close>

lemma map_of_dict_set: "map_of (dict_set d k v) k' = (if k' = k then Some v else map_of d k')"
  by (induction d) auto

lemma dict_update_is_deep_merge:
  assumes "distinct (map fst e)"
    and "\<forall>k \<in> set (map fst e). \<forall>dv. map_of d k \<noteq> Some (JDict dv)"
  shows "dict_update d e = spec_deep_merge d e"
  using assms
proof (induction e arbitrary: d)
  case Nil
  show ?case by simp
next
  case (Cons kv e)
  obtain k v where kv: "kv = (k, v)"
    by (cases kv)
  from Cons.prems(2) kv have nd: "\<forall>dv. map_of d k \<noteq> Some (JDict dv)"
    by simp
  have same: "(case v of
                 JDict ev \<Rightarrow> (case map_of d k of
                               Some (JDict dv) \<Rightarrow> JDict (spec_deep_merge dv ev)
                             | _ \<Rightarrow> v)
               | _ \<Rightarrow> v) = v"
    using nd by (auto split: json.splits option.splits)
  have "\<forall>k' \<in> set (map fst e). \<forall>dv. map_of (dict_set d k v) k' \<noteq> Some (JDict dv)"
    using Cons.prems kv by (auto simp: map_of_dict_set)
  moreover have "distinct (map fst e)"
    using Cons.prems(1) by simp
  ultimately have "dict_update (dict_set d k v) e = spec_deep_merge (dict_set d k v) e"
    by (rule Cons.IH [rotated])
  then show ?case
    by (simp add: kv same)
qed

lemma playlist_defaults_no_dict:
  "\<not> is_dict (server_key self) \<Longrightarrow>
   map_of (playlist_defaults self deejay_device_id video_id rv) k \<noteq> Some (JDict dv)"
  by (auto simp: playlist_defaults_def)

lemma load_playlist_only_request:
  "py_int e (device_code (device self)) = Inr deejay_device_id \<Longrightarrow>
   load_playlist
     (e\<lparr>post := \<lambda>url b. if url = ''https://play.hulu.com/v4/playlist''
                               \<and> b = JsonBody (JDict (playlist_params self deejay_device_id
                                                        video_id rv))
                           then post e url b else Inl ConnectionError\<rparr>)
     self video_id rv lg
   = load_playlist e self video_id rv lg"
  by (simp add: load_playlist_def Let_def cong: sum.case_cong prod.case_cong)

lemma chrome_audio_codecs:
  "getitem_path
     (JDict (dict_update d (chrome_extra_playlist_params force_2ch)))
     [''playback'', ''audio'', ''codecs'', ''values'']
   = Inr (JList (audio_codecs force_2ch))"
  by (simp add: chrome_extra_playlist_params_def map_of_dict_set)

text \<open>
  Claim C5.  For every mapping of extra parameters (a \<^verbatim>\<open>dict\<close>, so its keys are distinct)
  and a \<open>key_id\<close> of the handshake that is not itself a mapping (the specification has it
  an opaque string), the payload \<open>load_playlist\<close> sends is the default mapping with the
  extra parameters deep-merged over it; it is the only request \<open>load_playlist\<close> makes.
  With the extra parameters of \<^verbatim>\<open>hulu.py\<close> the audio codec list of the payload is
  \<open>audio_codecs\<close>: without \<open>EC3\<close> when \<open>force_2ch\<close> is set, with \<open>AAC\<close> and \<open>EC3\<close> otherwise.
\<close>

theorem legacy_payload_is_deep_merge:
  assumes "distinct (map fst (extra_playlist_params self))"
    and "\<not> is_dict (server_key self)"
    and "py_int e (device_code (device self)) = Inr deejay_device_id"
  shows "playlist_params self deejay_device_id video_id rv
           = spec_deep_merge (playlist_defaults self deejay_device_id video_id rv)
               (extra_playlist_params self)
         \<and> load_playlist
             (e\<lparr>post := \<lambda>url b. if url = ''https://play.hulu.com/v4/playlist''
                                       \<and> b = JsonBody (JDict (playlist_params self
                                                                deejay_device_id video_id rv))
                                   then post e url b else Inl ConnectionError\<rparr>)
             self video_id rv lg
           = load_playlist e self video_id rv lg
         \<and> (extra_playlist_params self = chrome_extra_playlist_params force_2ch \<longrightarrow>
               getitem_path (JDict (playlist_params self deejay_device_id video_id rv))
                 [''playback'', ''audio'', ''codecs'', ''values'']
               = Inr (JList (audio_codecs force_2ch)))
         \<and> (force_2ch \<longrightarrow>
               audio_codecs force_2ch = [JDict [(''type'', JStr ''AAC'')]]
               \<and> JDict [(''type'', JStr ''EC3'')] \<notin> set (audio_codecs force_2ch))
         \<and> (\<not> force_2ch \<longrightarrow>
               JDict [(''type'', JStr ''AAC'')] \<in> set (audio_codecs force_2ch)
               \<and> JDict [(''type'', JStr ''EC3'')] \<in> set (audio_codecs force_2ch))"
proof (intro conjI impI)
  show "playlist_params self deejay_device_id video_id rv
           = spec_deep_merge (playlist_defaults self deejay_device_id video_id rv)
               (extra_playlist_params self)"
    unfolding playlist_params_def
    using assms(1,2) by (intro dict_update_is_deep_merge) (auto simp: playlist_defaults_no_dict)
  show "load_playlist
             (e\<lparr>post := \<lambda>url b. if url = ''https://play.hulu.com/v4/playlist''
                                       \<and> b = JsonBody (JDict (playlist_params self
                                                                deejay_device_id video_id rv))
                                   then post e url b else Inl ConnectionError\<rparr>)
             self video_id rv lg
           = load_playlist e self video_id rv lg"
    using assms(3) by (rule load_playlist_only_request)
next
  assume "extra_playlist_params self = chrome_extra_playlist_params force_2ch"
  then show "getitem_path (JDict (playlist_params self deejay_device_id video_id rv))
                 [''playback'', ''audio'', ''codecs'', ''values'']
               = Inr (JList (audio_codecs force_2ch))"
    unfolding playlist_params_def by (simp only: chrome_audio_codecs)
next
  assume "force_2ch"
  then show "audio_codecs force_2ch = [JDict [(''type'', JStr ''AAC'')]]"
    and "JDict [(''type'', JStr ''EC3'')] \<notin> set (audio_codecs force_2ch)"
    by (simp_all add: audio_codecs_def)
next
  assume "\<not> force_2ch"
  then show "JDict [(''type'', JStr ''AAC'')] \<in> set (audio_codecs force_2ch)"
    and "JDict [(''type'', JStr ''EC3'')] \<in> set (audio_codecs force_2ch)"
    by (simp_all add: audio_codecs_def)
qed

lemma device_identifier: "upper (md5_hexdigest []) = ''D41D8CD98F00B204E9800998ECF8427E''"
  unfolding md5_hexdigest_empty by code_simp

theorem legacy_payload_is_deep_merge_witness:
  "spec_deep_merge (playlist_defaults (example_client True) 830 ''vid'' 123456)
     (chrome_extra_playlist_params True)
   = [(''device_identifier'', JStr ''D41D8CD98F00B204E9800998ECF8427E''),
      (''deejay_device_id'', JInt 830),
      (''version'', JInt 1),
      (''content_eab_id'', JStr ''vid''),
      (''rv'', JInt 123456),
      (''kv'', JStr ''k1''),
      (''playback'', JDict [(''audio'', JDict [(''codecs'', JDict
         [(''values'', JList [JDict [(''type'', JStr ''AAC'')]])])])])]"
proof -
  let ?c = "example_client True"
  have h1: "distinct (map fst (extra_playlist_params ?c))"
    by (simp add: example_client_def chrome_extra_playlist_params_def)
  have h2: "\<not> is_dict (server_key ?c)"
    by (simp add: example_client_def)
  have h3: "py_int example_service (device_code (device ?c)) = Inr 830"
    by (simp add: example_service_def example_env_def example_client_def device_830_def
        example_int_830)
  have x: "extra_playlist_params ?c = chrome_extra_playlist_params True"
    by (simp add: example_client_def)
  from legacy_payload_is_deep_merge [OF h1 h2 h3, of "''vid''" 123456 "[]" True]
  have "playlist_params ?c 830 ''vid'' 123456
          = spec_deep_merge (playlist_defaults ?c 830 ''vid'' 123456) (extra_playlist_params ?c)"
    by blast
  moreover have "playlist_params ?c 830 ''vid'' 123456
      = [(''device_identifier'', JStr ''D41D8CD98F00B204E9800998ECF8427E''),
         (''deejay_device_id'', JInt 830),
         (''version'', JInt 1),
         (''content_eab_id'', JStr ''vid''),
         (''rv'', JInt 123456),
         (''kv'', JStr ''k1''),
         (''playback'', JDict [(''audio'', JDict [(''codecs'', JDict
            [(''values'', JList [JDict [(''type'', JStr ''AAC'')]])])])])]"
    by (simp add: playlist_params_def playlist_defaults_def device_identifier x
        chrome_extra_playlist_params_def audio_codecs_def example_client_def)
  ultimately show ?thesis
    unfolding x by simp
qed

section \<open>The versioned playlist request\<close>

lemma load_playlist_six_aes [simp]:
  "load_playlist_six (e\<lparr>aes_decrypt_block := D\<rparr>) self video_id device_id hdr hevc rv_hevc rv_avc
     = load_playlist_six e self video_id device_id hdr hevc rv_hevc rv_avc"
  by (simp add: load_playlist_six_def cong: sum.case_cong)

lemma six_params_hdr:
  "\<exists>p. six_params self video_id device_id True hevc rv_hevc rv_avc = Inr p
       \<and> getitem_path p [''playback'', ''video'', ''dynamic_range''] = Inr (JStr ''DOLBY_VISION'')
       \<and> getitem_path p [''playback'', ''drm'', ''multi_key''] = Inr (JBool True)"
  by (cases hevc) (simp_all add: six_params_def hevc_params_def avc_params_def)

lemma six_params_avc:
  "\<exists>p entry. six_params self video_id device_id hdr False rv_hevc rv_avc = Inr p
       \<and> getitem_path p [''playback'', ''video'', ''codecs'', ''values''] = Inr (JList [entry])
       \<and> getitem entry ''type'' = Inr (JStr ''H264'')
       \<and> getitem entry ''profile'' = Inr (JStr ''HIGH'')"
  by (cases hdr) (simp_all add: six_params_def avc_params_def)

lemma six_params_no_hdr:
  "\<exists>p. six_params self video_id device_id False hevc rv_hevc rv_avc = Inr p
       \<and> getitem_path p [''playback'', ''video'', ''dynamic_range'']
           = Inl (KeyError ''dynamic_range'')
       \<and> getitem_path p [''playback'', ''drm'', ''multi_key''] = Inl (KeyError ''multi_key'')"
  by (cases hevc) (simp_all add: six_params_def hevc_params_def avc_params_def)

lemma six_params_total:
  "\<exists>p. six_params self video_id device_id hdr hevc rv_hevc rv_avc = Inr p"
  using six_params_hdr [of self video_id device_id hevc rv_hevc rv_avc]
    six_params_no_hdr [of self video_id device_id hevc rv_hevc rv_avc]
  by (cases hdr) auto

lemma load_playlist_six_only_request:
  "six_params self video_id device_id hdr hevc rv_hevc rv_avc = Inr p \<Longrightarrow>
   load_playlist_six
     (e\<lparr>post := \<lambda>url b. if url = ''https://play.hulu.com/v6/playlist'' \<and> b = JsonBody p
                           then post e url b else Inl ConnectionError\<rparr>)
     self video_id device_id hdr hevc rv_hevc rv_avc
   = load_playlist_six e self video_id device_id hdr hevc rv_hevc rv_avc"
  by (simp add: load_playlist_six_def cong: sum.case_cong)

text \<open>
  Claim C6.  The payload of \<open>load_playlist_six\<close> always exists; it is the only request the
  call makes.  With \<open>hevc\<close> and \<open>hdr\<close> set it has \<open>dynamic_range = DOLBY_VISION\<close> under
  \<open>playback.video\<close> and \<open>multi_key = true\<close> under \<open>playback.drm\<close>; without \<open>hevc\<close> its one video
  codec has the type \<open>H264\<close> and the profile \<open>HIGH\<close>; without \<open>hdr\<close> there is neither a
  \<open>dynamic_range\<close> under \<open>playback.video\<close> nor a \<open>multi_key\<close> under \<open>playback.drm\<close>.
\<close>

theorem six_params_codec_and_dynamic_range:
  "(hevc \<and> hdr \<longrightarrow>
      (\<exists>p. six_params self video_id device_id hdr hevc rv_hevc rv_avc = Inr p
         \<and> getitem_path p [''playback'', ''video'', ''dynamic_range'']
             = Inr (JStr ''DOLBY_VISION'')
         \<and> getitem_path p [''playback'', ''drm'', ''multi_key''] = Inr (JBool True)))
   \<and> (\<not> hevc \<longrightarrow>
      (\<exists>p entry. six_params self video_id device_id hdr hevc rv_hevc rv_avc = Inr p
         \<and> getitem_path p [''playback'', ''video'', ''codecs'', ''values''] = Inr (JList [entry])
         \<and> getitem entry ''type'' = Inr (JStr ''H264'')
         \<and> getitem entry ''profile'' = Inr (JStr ''HIGH'')))
   \<and> (\<not> hdr \<longrightarrow>
      (\<exists>p. six_params self video_id device_id hdr hevc rv_hevc rv_avc = Inr p
         \<and> getitem_path p [''playback'', ''video'', ''dynamic_range'']
             = Inl (KeyError ''dynamic_range'')
         \<and> getitem_path p [''playback'', ''drm'', ''multi_key'']
             = Inl (KeyError ''multi_key'')))
   \<and> (\<exists>p. six_params self video_id device_id hdr hevc rv_hevc rv_avc = Inr p
         \<and> load_playlist_six
             (e\<lparr>post := \<lambda>url b. if url = ''https://play.hulu.com/v6/playlist''
                                       \<and> b = JsonBody p
                                   then post e url b else Inl ConnectionError\<rparr>)
             self video_id device_id hdr hevc rv_hevc rv_avc
           = load_playlist_six e self video_id device_id hdr hevc rv_hevc rv_avc)"
proof (intro conjI impI)
  assume "hevc \<and> hdr"
  then show "\<exists>p. six_params self video_id device_id hdr hevc rv_hevc rv_avc = Inr p
         \<and> getitem_path p [''playback'', ''video'', ''dynamic_range'']
             = Inr (JStr ''DOLBY_VISION'')
         \<and> getitem_path p [''playback'', ''drm'', ''multi_key''] = Inr (JBool True)"
    using six_params_hdr [of self video_id device_id hevc rv_hevc rv_avc] by simp
next
  assume "\<not> hevc"
  then show "\<exists>p entry. six_params self video_id device_id hdr hevc rv_hevc rv_avc = Inr p
         \<and> getitem_path p [''playback'', ''video'', ''codecs'', ''values''] = Inr (JList [entry])
         \<and> getitem entry ''type'' = Inr (JStr ''H264'')
         \<and> getitem entry ''profile'' = Inr (JStr ''HIGH'')"
    using six_params_avc [of self video_id device_id hdr rv_hevc rv_avc] by simp
next
  assume "\<not> hdr"
  then show "\<exists>p. six_params self video_id device_id hdr hevc rv_hevc rv_avc = Inr p
         \<and> getitem_path p [''playback'', ''video'', ''dynamic_range'']
             = Inl (KeyError ''dynamic_range'')
         \<and> getitem_path p [''playback'', ''drm'', ''multi_key'']
             = Inl (KeyError ''multi_key'')"
    using six_params_no_hdr [of self video_id device_id hevc rv_hevc rv_avc] by simp
next
  from six_params_total obtain p
    where p: "six_params self video_id device_id hdr hevc rv_hevc rv_avc = Inr p"
    by blast
  then show "\<exists>p. six_params self video_id device_id hdr hevc rv_hevc rv_avc = Inr p
         \<and> load_playlist_six
             (e\<lparr>post := \<lambda>url b. if url = ''https://play.hulu.com/v6/playlist''
                                       \<and> b = JsonBody p
                                   then post e url b else Inl ConnectionError\<rparr>)
             self video_id device_id hdr hevc rv_hevc rv_avc
           = load_playlist_six e self video_id device_id hdr hevc rv_hevc rv_avc"
    using load_playlist_six_only_request [OF p] by blast
qed

theorem six_params_codec_and_dynamic_range_witness:
  "(\<exists>p. six_params (example_client False) ''vid'' 210 True True 111111 222222 = Inr p
       \<and> getitem_path p [''playback'', ''video'', ''dynamic_range'']
           = Inr (JStr ''DOLBY_VISION'')
       \<and> getitem_path p [''playback'', ''drm'', ''multi_key''] = Inr (JBool True))
   \<and> (\<exists>p entry. six_params (example_client False) ''vid'' 210 False False 111111 222222 = Inr p
       \<and> getitem_path p [''playback'', ''video'', ''codecs'', ''values''] = Inr (JList [entry])
       \<and> getitem entry ''type'' = Inr (JStr ''H264'')
       \<and> getitem entry ''profile'' = Inr (JStr ''HIGH''))
   \<and> (\<exists>p. six_params (example_client False) ''vid'' 210 False False 111111 222222 = Inr p
       \<and> getitem_path p [''playback'', ''video'', ''dynamic_range'']
           = Inl (KeyError ''dynamic_range'')
       \<and> getitem_path p [''playback'', ''drm'', ''multi_key''] = Inl (KeyError ''multi_key''))"
  using six_params_codec_and_dynamic_range
          [of True True "example_client False" "''vid''" 210 111111 222222 example_service]
        six_params_codec_and_dynamic_range
          [of False False "example_client False" "''vid''" 210 111111 222222 example_service]
  by simp

section \<open>The two kinds of response\<close>

lemma load_playlist_decoded:
  assumes "py_int e (device_code (device self)) = Inr deejay_device_id"
    and "post e ''https://play.hulu.com/v4/playlist''
           (JsonBody (JDict (playlist_params self deejay_device_id video_id rv))) = Inr resp"
    and "fromhex (resp_text resp) = Some ciphertext"
  shows "load_playlist e self video_id rv lg = decrypt_response e (session_key self) ciphertext lg"
  using assms by (simp add: load_playlist_def Let_def get_ciphertext_decoded)

lemma load_playlist_six_parsed:
  assumes "six_params self video_id device_id hdr hevc rv_hevc rv_avc = Inr params"
    and "post e ''https://play.hulu.com/v6/playlist'' (JsonBody params) = Inr resp"
    and "\<not> (400 \<le> status_code resp \<and> status_code resp < 600)"
  shows "load_playlist_six e self video_id device_id hdr hevc rv_hevc rv_avc
           = json_loads e (resp_text resp)"
  using assms by (auto simp: load_playlist_six_def raise_for_status_def)

lemma six_params_session_key [simp]:
  "six_params (self\<lparr>session_key := k\<rparr>) video_id device_id hdr hevc rv_hevc rv_avc
     = six_params self video_id device_id hdr hevc rv_hevc rv_avc"
  by (simp add: six_params_def hevc_params_def avc_params_def)

lemma load_playlist_six_session_key [simp]:
  "load_playlist_six e (self\<lparr>session_key := k\<rparr>) video_id device_id hdr hevc rv_hevc rv_avc
     = load_playlist_six e self video_id device_id hdr hevc rv_hevc rv_avc"
  by (simp add: load_playlist_six_def)

text \<open>
  Claim C8.  When both requests succeed, the result of \<open>load_playlist\<close> is the parse of the
  text obtained from the body by hex decoding, CBC decryption under the session key and
  unpadding, and the result of \<open>load_playlist_six\<close> is the parse of the body itself, whatever
  the block cipher and the session key are.
\<close>

theorem legacy_is_decrypted_six_is_plain:
  assumes "py_int e (device_code (device self)) = Inr deejay_device_id"
    and "post e ''https://play.hulu.com/v4/playlist''
           (JsonBody (JDict (playlist_params self deejay_device_id video_id rv))) = Inr resp"
    and "fromhex (resp_text resp) = Some ciphertext"
    and "length (session_key self) \<in> {16, 24, 32}"
    and "length ciphertext mod 16 = 0"
    and "unpad (cbc_chain (aes_decrypt_block e (session_key self)) (replicate 16 0)
                  (chunks 16 ciphertext)) 16 = Inr plaintext"
    and "decode_utf8 plaintext = Inr s"
    and "six_params self video_id device_id hdr hevc rv_hevc rv_avc = Inr params"
    and "post e ''https://play.hulu.com/v6/playlist'' (JsonBody params) = Inr resp6"
    and "\<not> (400 \<le> status_code resp6 \<and> status_code resp6 < 600)"
  shows "load_playlist e self video_id rv lg = (json_loads e s, lg)
         \<and> load_playlist_six e self video_id device_id hdr hevc rv_hevc rv_avc
             = json_loads e (resp_text resp6)
         \<and> (\<forall>D k. load_playlist_six (e\<lparr>aes_decrypt_block := D\<rparr>) (self\<lparr>session_key := k\<rparr>)
                      video_id device_id hdr hevc rv_hevc rv_avc
                    = json_loads e (resp_text resp6))"
proof -
  have "load_playlist e self video_id rv lg
          = decrypt_response e (session_key self) ciphertext lg"
    using assms(1-3) by (rule load_playlist_decoded)
  moreover have "decrypt_and_unpad e \<lparr>ctx_key = session_key self, ctx_iv = replicate 16 0\<rparr>
                   ciphertext = Inr plaintext"
    using assms(5,6) by (simp add: decrypt_and_unpad_def cbc_decrypt_def)
  then have "decrypt_response e (session_key self) ciphertext lg = (json_loads e s, lg)"
    using assms(4,7) by (simp add: decrypt_response_def AES_new_ok)
  moreover have six: "load_playlist_six e self video_id device_id hdr hevc rv_hevc rv_avc
                   = json_loads e (resp_text resp6)"
    using assms(8-10) by (rule load_playlist_six_parsed)
  ultimately show ?thesis
    by simp
qed

lemma fromhex_playlist_resp: "fromhex (resp_text playlist_resp) = Some envelope_playlist"
  unfolding playlist_resp_def by (simp add: fromhex_playlist_text)

lemma unpad_envelope_playlist:
  \<open>unpad (cbc_chain (example_cipher (replicate 16 255)) (replicate 16 0)
            (chunks 16 envelope_playlist)) 16
     = Inr (encode_utf8 ''{"stream_url":"https://example.com/a.mpd"}'')\<close>
  by code_simp

lemma decode_playlist_doc:
  \<open>decode_utf8 (encode_utf8 ''{"stream_url":"https://example.com/a.mpd"}'')
     = Inr ''{"stream_url":"https://example.com/a.mpd"}''\<close>
  by code_simp

theorem legacy_is_decrypted_six_is_plain_witness:
  "load_playlist example_service (example_client False) ''vid'' 123456 [] = (Inr playlist_doc, [])
   \<and> load_playlist_six example_service (example_client False) ''vid'' 210 False True 111111 222222
       = Inr playlist_doc"
proof -
  let ?c = "example_client False"
  have h1: "py_int example_service (device_code (device ?c)) = Inr 830"
    by (simp add: example_service_def example_env_def example_client_def device_830_def
        example_int_830)
  have h2: "post example_service ''https://play.hulu.com/v4/playlist''
              (JsonBody (JDict (playlist_params ?c 830 ''vid'' 123456))) = Inr playlist_resp"
    by (simp add: example_service_def example_env_def)
  have h4: "length (session_key ?c) \<in> {16, 24, 32}"
    by (simp add: example_client_def)
  have h5: "length envelope_playlist mod 16 = 0"
    by (simp add: envelope_playlist_def)
  have h6: \<open>unpad (cbc_chain (aes_decrypt_block example_service (session_key ?c)) (replicate 16 0)
                   (chunks 16 envelope_playlist)) 16
              = Inr (encode_utf8 ''{"stream_url":"https://example.com/a.mpd"}'')\<close>
    using unpad_envelope_playlist
    by (simp add: example_service_def example_env_def example_client_def)
  obtain params where h8: "six_params ?c ''vid'' 210 False True 111111 222222 = Inr params"
    using six_params_total by blast
  have h9: "post example_service ''https://play.hulu.com/v6/playlist'' (JsonBody params)
              = Inr six_resp"
    by (simp add: example_service_def example_env_def)
  have h10: "\<not> (400 \<le> status_code six_resp \<and> status_code six_resp < 600)"
    by (simp add: six_resp_def)
  have j: \<open>json_loads example_service ''{"stream_url":"https://example.com/a.mpd"}''
             = Inr playlist_doc\<close>
    by (simp add: example_service_def example_env_def example_json_loads_def)
  from legacy_is_decrypted_six_is_plain
         [OF h1 h2 fromhex_playlist_resp h4 h5 h6 decode_playlist_doc h8 h9 h10, of "[]"]
  show ?thesis
    by (simp add: j six_resp_def)
qed

section \<open>The status of the response\<close>

lemma load_playlist_six_request_failed:
  assumes "six_params self video_id device_id hdr hevc rv_hevc rv_avc = Inr params"
    and "post e ''https://play.hulu.com/v6/playlist'' (JsonBody params) = Inr resp"
    and "400 \<le> status_code resp" and "status_code resp < 600"
  shows "load_playlist_six e self video_id device_id hdr hevc rv_hevc rv_avc
           = Inl (RequestFailed (status_code resp) (resp_text resp))"
  using assms by (simp add: load_playlist_six_def raise_for_status_def RequestFailed_def)

text \<open>\<open>load_playlist\<close> never reads the status of the response.\<close>

lemma load_playlist_status_blind:
  "load_playlist
     (e\<lparr>post := \<lambda>url b. (case post e url b of
                             Inl err \<Rightarrow> Inl err
                           | Inr resp \<Rightarrow> Inr (resp\<lparr>status_code := status\<rparr>))\<rparr>)
     self video_id rv lg
   = load_playlist e self video_id rv lg"
  by (auto simp: load_playlist_def Let_def split: sum.splits prod.splits)

text \<open>
  Claim C7 fails on \<open>load_playlist\<close>, which has no \<^verbatim>\<open>raise_for_status\<close>: an answer with
  status 403 and the body \<open>Forbidden\<close> ends in \<open>MalformedEnvelope\<close>, an answer with status 500
  and an envelope as body is decrypted and returned.  \<open>load_playlist_six\<close> fails with
  \<open>RequestFailed\<close> on the same answer.
\<close>

theorem load_playlist_ignores_status:
  "load_playlist
     (example_env config_resp_ff \<lparr>status_code = 403, resp_text = ''Forbidden''\<rparr> six_resp)
     (example_client False) ''vid'' 123456 []
   = (Inl MalformedEnvelope,
      [''Error decoding response hex'', ''Request:'', ''{}'', ''Response:'', ''Forbidden''])
   \<and> load_playlist
       (example_env config_resp_ff \<lparr>status_code = 500, resp_text = playlist_text\<rparr> six_resp)
       (example_client False) ''vid'' 123456 []
     = (Inr playlist_doc, [])
   \<and> load_playlist_six
       (example_env config_resp_ff playlist_resp \<lparr>status_code = 403, resp_text = ''Forbidden''\<rparr>)
       (example_client False) ''vid'' 210 False True 111111 222222
     = Inl (RequestFailed 403 ''Forbidden'')"
proof (intro conjI)
  let ?c = "example_client False"
  let ?r403 = "\<lparr>status_code = 403, resp_text = ''Forbidden''\<rparr>"
  let ?r500 = "\<lparr>status_code = 500, resp_text = playlist_text\<rparr>"
  have i: "py_int (example_env r1 r2 r3) (device_code (device ?c)) = Inr 830" for r1 r2 r3
    by (simp add: example_env_def example_client_def device_830_def example_int_830)
  have p: "post (example_env r1 r2 r3) ''https://play.hulu.com/v4/playlist'' b = Inr r2"
    for r1 r2 r3 b
    by (simp add: example_env_def)
  have f: "fromhex ''Forbidden'' = None"
    by code_simp
  have s: "splitlines ''Forbidden'' = [''Forbidden'']"
    by code_simp
  show "load_playlist (example_env config_resp_ff ?r403 six_resp) ?c ''vid'' 123456 []
          = (Inl MalformedEnvelope,
             [''Error decoding response hex'', ''Request:'', ''{}'', ''Response:'', ''Forbidden''])"
  proof -
    let ?e = "example_env config_resp_ff ?r403 six_resp"
    have p': "post ?e ''https://play.hulu.com/v4/playlist''
                (JsonBody (JDict (playlist_params ?c 830 ''vid'' 123456))) = Inr ?r403"
      by (rule p)
    have f': "fromhex (resp_text ?r403) = None"
      unfolding http_response.select_convs by (rule f)
    from load_playlist_rejected [OF i p' f', of "[]"] show ?thesis
      by (simp add: s splitlines_examples example_env_def)
  qed
  have "load_playlist (example_env config_resp_ff ?r500 six_resp) ?c ''vid'' 123456 []
          = decrypt_response (example_env config_resp_ff ?r500 six_resp) (session_key ?c)
              envelope_playlist []"
    by (rule load_playlist_decoded [OF i p]) (simp add: fromhex_playlist_text)
  then show "load_playlist (example_env config_resp_ff ?r500 six_resp) ?c ''vid'' 123456 []
          = (Inr playlist_doc, [])"
    by (simp add: example_client_def decrypt_envelope_playlist)
  obtain params where h: "six_params ?c ''vid'' 210 False True 111111 222222 = Inr params"
    using six_params_total by blast
  have "post (example_env config_resp_ff playlist_resp ?r403)
          ''https://play.hulu.com/v6/playlist'' (JsonBody params) = Inr ?r403"
    by (simp add: example_env_def)
  from load_playlist_six_request_failed [OF h this]
  show "load_playlist_six (example_env config_resp_ff playlist_resp ?r403) ?c ''vid'' 210
          False True 111111 222222 = Inl (RequestFailed 403 ''Forbidden'')"
    by simp
qed

end
